theory Spec2Isabelle
  imports Complex_Main
begin

chapter \<open>The model\<close>

section \<open>Numbers, strings and signals\<close>

text \<open>
  The analysis engine computes with JavaScript numbers. They are modelled as reals: the
  rounding of IEEE doubles is not part of the model. Where the source can divide by zero
  the quotient is a \<open>jsnum\<close>, which keeps the three non-finite outcomes apart, since
  comparisons treat them differently (\<open>NaN > x\<close> is false, \<open>Infinity > x\<close> is true).
\<close>

datatype jsnum = Num real | PosInf | NegInf | NaN

definition js_div :: "real \<Rightarrow> real \<Rightarrow> jsnum" where
  "js_div a b =
     (if b = 0 then (if a = 0 then NaN else if 0 < a then PosInf else NegInf)
      else Num (a / b))"

fun js_gt :: "jsnum \<Rightarrow> real \<Rightarrow> bool" where
  "js_gt (Num a) x = (x < a)"
| "js_gt PosInf x = True"
| "js_gt NegInf x = False"
| "js_gt NaN x = False"

fun js_lt :: "jsnum \<Rightarrow> real \<Rightarrow> bool" where
  "js_lt (Num a) x = (a < x)"
| "js_lt PosInf x = False"
| "js_lt NegInf x = True"
| "js_lt NaN x = False"

text \<open>\<open>Math.round\<close> rounds half up: \<open>Math.round(2.5) = 3\<close>, \<open>Math.round(-2.5) = -2\<close>.\<close>

definition js_round :: "real \<Rightarrow> int" where
  "js_round x = \<lfloor>x + 1 / 2\<rfloor>"

text \<open>
  \<open>a && b && c\<close> on values that are a number or \<open>null\<close>: a value is truthy when it is
  present and not zero.
\<close>

definition truthy :: "real option \<Rightarrow> bool" where
  "truthy v = (case v of None \<Rightarrow> False | Some x \<Rightarrow> x \<noteq> 0)"

text \<open>
  A score, an impact or a confidence of the recommendation is a number or NaN; being sums
  and products of finite numbers, such a value is never infinite. Arithmetic on NaN gives
  NaN, and every comparison with NaN is false.
\<close>

datatype 'a nan_or = Number 'a | NotANumber

fun nan_lift2 :: "('a \<Rightarrow> 'b \<Rightarrow> 'c) \<Rightarrow> 'a nan_or \<Rightarrow> 'b nan_or \<Rightarrow> 'c nan_or" where
  "nan_lift2 f (Number a) (Number b) = Number (f a b)"
| "nan_lift2 f (Number a) NotANumber = NotANumber"
| "nan_lift2 f NotANumber b = NotANumber"

fun nan_test :: "('a \<Rightarrow> 'b \<Rightarrow> bool) \<Rightarrow> 'a nan_or \<Rightarrow> 'b nan_or \<Rightarrow> bool" where
  "nan_test P (Number a) (Number b) = P a b"
| "nan_test P (Number a) NotANumber = False"
| "nan_test P NotANumber b = False"

text \<open>
  A string that comes with the input, such as the name of a pattern, is a list of UTF-16
  code units. The literals of the source are ASCII; \<open>utf16\<close> gives their code units.
\<close>

type_synonym jsstring = "int list"

definition utf16 :: "string \<Rightarrow> jsstring" where
  "utf16 s = map of_char s"

text \<open>
  The strings \<open>'BUY'\<close>, \<open>'SELL'\<close>, \<open>'HOLD'\<close> and \<open>'WAIT'\<close> of the source. Patterns and
  indicators carry BUY, SELL or HOLD; a recommendation carries BUY, SELL or WAIT.
\<close>

datatype signal = BUY | SELL | HOLD | WAIT

section \<open>Configuration (the \<open>config\<close> object, lines 4-71)\<close>

definition candles_scanCount :: nat where "candles_scanCount = 150"
definition candles_minWidth :: nat where "candles_minWidth = 2"
definition candles_chartAreaRatio :: real where "candles_chartAreaRatio = 0.9"
definition candles_dojiBodyRatio :: real where "candles_dojiBodyRatio = 0.05"
definition candles_wickRatio :: real where "candles_wickRatio = 2.5"

definition greenCandle :: "real \<Rightarrow> real \<Rightarrow> real \<Rightarrow> bool" where
  "greenCandle r g b = (g > r * 1.3 \<and> g > b * 1.3 \<and> g > 100)"

definition redCandle :: "real \<Rightarrow> real \<Rightarrow> real \<Rightarrow> bool" where
  "redCandle r g b = (r > g * 1.3 \<and> r > b * 1.3 \<and> r > 100)"

definition sr_zoneProximity :: real where "sr_zoneProximity = 0.015"
definition sr_minTouches :: nat where "sr_minTouches = 2"
definition sr_clusterTolerance :: real where "sr_clusterTolerance = 0.01"
definition sr_confirmationCandles :: nat where "sr_confirmationCandles = 3"

definition donchian_periods :: "nat list" where "donchian_periods = [20, 50]"
definition donchian_breakoutThreshold :: real where "donchian_breakoutThreshold = 0.015"

definition scores_strongSupport :: real where "scores_strongSupport = 5.0"
definition scores_strongResistance :: real where "scores_strongResistance = 5.0"
definition scores_upperBreakout :: real where "scores_upperBreakout = 4.5"
definition scores_lowerBreakout :: real where "scores_lowerBreakout = 4.5"
definition scores_macdBullish :: real where "scores_macdBullish = 3.5"
definition scores_macdBearish :: real where "scores_macdBearish = 3.5"

definition config_scores :: "(string \<times> real) list" where
  "config_scores =
    [(''doji'', 1.0), (''spinningTop'', 1.5), (''hammer'', 2.5), (''invertedHammer'', 2.0),
     (''shootingStar'', 2.0), (''hangingMan'', 2.5), (''bullishEngulfing'', 4.0),
     (''bearishEngulfing'', 4.0), (''bullishHarami'', 3.0), (''bearishHarami'', 3.0),
     (''piercingLine'', 3.5), (''darkCloudCover'', 3.5), (''morningStar'', 5.0),
     (''eveningStar'', 5.0), (''threeWhiteSoldiers'', 4.5), (''threeBlackCrows'', 4.5),
     (''tweezerTop'', 2.5), (''tweezerBottom'', 2.5), (''risingThree'', 3.5),
     (''fallingThree'', 3.5), (''gapUp'', 3.0), (''gapDown'', 3.0),
     (''strongSupport'', scores_strongSupport), (''strongResistance'', scores_strongResistance),
     (''upperBreakout'', scores_upperBreakout), (''lowerBreakout'', scores_lowerBreakout),
     (''rsiOversold'', 3.0), (''rsiOverbought'', 3.0),
     (''macdBullish'', scores_macdBullish), (''macdBearish'', scores_macdBearish)]"

definition confidenceThreshold :: int where "confidenceThreshold = 65"

definition profitTargets_conservative :: real where "profitTargets_conservative = 0.015"
definition profitTargets_moderate :: real where "profitTargets_moderate = 0.03"
definition profitTargets_aggressive :: real where "profitTargets_aggressive = 0.045"
definition riskLevels_conservative :: real where "riskLevels_conservative = 0.0075"
definition riskLevels_moderate :: real where "riskLevels_moderate = 0.015"
definition riskLevels_aggressive :: real where "riskLevels_aggressive = 0.0225"

section \<open>Data model\<close>

text \<open>
  A candle as \<open>analyzeProfessionalCandlesticks\<close> builds it. Rows and columns are pixel
  coordinates; the numeric fields are JavaScript numbers, read by the indicators.
\<close>

record candle =
  c_x_end :: nat
  c_x_start :: nat
  c_isGreen :: bool
  c_isRed :: bool
  c_high :: real
  c_low :: real
  c_totalHeight :: real
  c_bodyTop :: real
  c_bodyBottom :: real
  c_open :: real
  c_close :: real
  c_bodyHeight :: real
  c_upperWick :: real
  c_lowerWick :: real
  c_bodyRatio :: real
  c_upperWickRatio :: real
  c_lowerWickRatio :: real

record pattern =
  p_name :: jsstring
  p_signal :: signal
  p_strength :: real
  p_description :: jsstring

record candleAnalysis =
  ca_candles :: "candle list"
  ca_patterns :: "pattern list"
  ca_mainPattern :: pattern

text \<open>A support or resistance level: the objects pushed to \<open>levels\<close> (lines 700-707).\<close>

record level =
  l_level :: int
  l_touches :: nat
  l_strength :: real
  l_indices :: "nat list"
  l_candles :: "candle list"

text \<open>
  The short-series result of \<open>analyzeSupportResistance\<close> has no \<open>levels\<close> property, that
  of \<open>analyzeDonchianChannels\<close> no \<open>allPeriods\<close>, and those of the moving averages and of
  MACD no \<open>indicators\<close>: a property that may be absent is an option.
\<close>

record srAnalysis =
  sr_supports :: "level list"
  sr_resistances :: "level list"
  sr_signal :: signal
  sr_strength :: real
  sr_levels :: "level list option"

record donchianPeriod =
  dp_period :: nat
  dp_highest :: real
  dp_lowest :: real
  dp_middle :: real
  dp_signal :: signal
  dp_strength :: real
  dp_position :: string

record donchianAnalysis =
  dc_signal :: signal
  dc_strength :: real
  dc_position :: "string option"
  dc_allPeriods :: "donchianPeriod list option"

record maIndicators =
  mi_sma9 :: "real option"
  mi_sma20 :: "real option"
  mi_sma50 :: "real option"
  mi_ema9 :: "real option"
  mi_ema20 :: "real option"
  mi_ema50 :: "real option"

record maAnalysis =
  ma_signal :: signal
  ma_strength :: real
  ma_indicators :: "maIndicators option"

record macdIndicators =
  md_macdLine :: real
  md_signalLine :: real
  md_histogram :: real

record macdAnalysis =
  macd_signal :: signal
  macd_strength :: real
  macd_indicators :: "macdIndicators option"

record quantIndicators =
  qi_rsi :: jsnum
  qi_sma9 :: "real option"
  qi_sma20 :: "real option"
  qi_sma50 :: "real option"
  qi_ema9 :: "real option"
  qi_ema20 :: "real option"
  qi_ema50 :: "real option"
  qi_volatility :: jsnum
  qi_trendStrength :: real
  qi_momentum :: jsnum

record quantAnalysis =
  q_signal :: signal
  q_strength :: real
  q_indicators :: quantIndicators

record combinedSignal =
  cs_signal :: signal
  cs_confidence :: real

text \<open>\<open>performQuantitativeAnalysis\<close> returns \<open>null\<close> on a short series: \<open>None\<close>.\<close>

record technicalAnalysis =
  ta_supportResistance :: srAnalysis
  ta_donchianChannels :: donchianAnalysis
  ta_quantitative :: "quantAnalysis option"
  ta_movingAverages :: maAnalysis
  ta_macd :: macdAnalysis
  ta_combinedSignal :: combinedSignal

text \<open>
  An entry of the recommendation's \<open>summary\<close>. The source's \<open>text\<close> is the label below
  decorated with an emoji and the score printed by \<open>toFixed(1)\<close>; the label and the impact
  determine it.
\<close>

datatype factor_type = bullish | bearish | neutral

record factor =
  f_type :: factor_type
  f_text :: jsstring
  f_impact :: "real nan_or"

text \<open>
  The returned recommendation. \<open>scores.buy\<close> and \<open>scores.sell\<close> are kept as numbers (the
  source prints them with \<open>toFixed(1)\<close>).
\<close>

record recommendation =
  r_action :: signal
  r_confidence :: "int nan_or"
  r_profitTarget :: real
  r_riskLevel :: real
  r_color :: string
  r_summary :: "factor list option"
  r_scores_buy :: "real nan_or"
  r_scores_sell :: "real nan_or"

section \<open>Array helpers\<close>

text \<open>
  \<open>Array.prototype.slice(start, end)\<close>: a negative index counts from the end, and both
  indices are clamped to the array.
\<close>

definition js_index :: "nat \<Rightarrow> int \<Rightarrow> nat" where
  "js_index len k = (if k < 0 then nat (max (int len + k) 0) else min (nat k) len)"

definition js_slice :: "int \<Rightarrow> int \<Rightarrow> 'a list \<Rightarrow> 'a list" where
  "js_slice start stop xs =
     (let s = js_index (length xs) start; e = js_index (length xs) stop
      in take (e - s) (drop s xs))"

definition js_slice_from :: "int \<Rightarrow> 'a list \<Rightarrow> 'a list" where
  "js_slice_from start xs = drop (js_index (length xs) start) xs"

text \<open>\<open>Math.max(...xs)\<close> and \<open>Math.min(...xs)\<close> of a list that is not empty.\<close>

fun list_max :: "real list \<Rightarrow> real" where
  "list_max [] = 0"
| "list_max (x # xs) = fold max xs x"

fun list_min :: "real list \<Rightarrow> real" where
  "list_min [] = 0"
| "list_min (x # xs) = fold min xs x"

section \<open>Pattern detection (\<open>detectAllCandlestickPatterns\<close>, lines 315-602)\<close>

definition isDoji :: "candle \<Rightarrow> bool" where
  "isDoji candle = (c_bodyRatio candle < candles_dojiBodyRatio)"

definition hasLongUpperWick :: "candle \<Rightarrow> bool" where
  "hasLongUpperWick candle =
     (c_upperWickRatio candle > c_lowerWickRatio candle * candles_wickRatio)"

definition hasLongLowerWick :: "candle \<Rightarrow> bool" where
  "hasLongLowerWick candle =
     (c_lowerWickRatio candle > c_upperWickRatio candle * candles_wickRatio)"

text \<open>\<open>if (cond) patterns.push({...})\<close>: the pattern when the condition holds.\<close>

definition pushIf :: "bool \<Rightarrow> string \<Rightarrow> signal \<Rightarrow> real \<Rightarrow> string \<Rightarrow> pattern list" where
  "pushIf cond name sig strength description =
     (if cond then [\<lparr>p_name = utf16 name, p_signal = sig, p_strength = strength,
                     p_description = utf16 description\<rparr>]
      else [])"

text \<open>Lines 342-405, on the latest candle.\<close>

definition singleCandlePatterns :: "candle \<Rightarrow> pattern list" where
  "singleCandlePatterns c0 =
     pushIf (isDoji c0) ''Doji'' HOLD 0.7
       ''Market Indecision - Equal buying and selling pressure'' @
     pushIf (c_bodyRatio c0 < 0.3 \<and> hasLongLowerWick c0 \<and> c_lowerWickRatio c0 > 0.5)
       ''Hammer'' BUY 0.9 ''Bullish Reversal - Buyers stepping in at lows'' @
     pushIf (c_bodyRatio c0 < 0.3 \<and> hasLongUpperWick c0 \<and> c_upperWickRatio c0 > 0.5)
       ''Inverted Hammer'' BUY 0.8
       ''Bullish Reversal - Buyers attempting to push prices higher'' @
     pushIf (c_bodyRatio c0 < 0.3 \<and> hasLongUpperWick c0 \<and> c_upperWickRatio c0 > 0.5 \<and>
             c_isRed c0)
       ''Shooting Star'' SELL 0.9
       ''Bearish Reversal - Sellers pushing prices down from highs'' @
     pushIf (c_bodyRatio c0 < 0.3 \<and> hasLongLowerWick c0 \<and> c_lowerWickRatio c0 > 0.5 \<and>
             c_isRed c0)
       ''Hanging Man'' SELL 0.8 ''Bearish Reversal - Potential selling climax'' @
     pushIf (c_bodyRatio c0 > 0.7 \<and> c_isGreen c0)
       ''Bullish Marubozu'' BUY 0.8 ''Strong Bullish Trend - Continuous buying pressure'' @
     pushIf (c_bodyRatio c0 > 0.7 \<and> c_isRed c0)
       ''Bearish Marubozu'' SELL 0.8 ''Strong Bearish Trend - Continuous selling pressure''"

text \<open>Lines 408-486, on the latest candle \<open>c0\<close> and the one before it, \<open>c1\<close>.\<close>

definition twoCandlePatterns :: "candle \<Rightarrow> candle \<Rightarrow> pattern list" where
  "twoCandlePatterns c0 c1 =
     pushIf (c_isGreen c0 \<and> c_isRed c1 \<and> c_close c0 > c_open c1 \<and> c_open c0 < c_close c1 \<and>
             c_bodyHeight c0 > c_bodyHeight c1)
       ''Bullish Engulfing'' BUY 0.95 ''Strong Bullish Reversal - Buyers overpower sellers'' @
     pushIf (c_isRed c0 \<and> c_isGreen c1 \<and> c_close c0 < c_open c1 \<and> c_open c0 > c_close c1 \<and>
             c_bodyHeight c0 > c_bodyHeight c1)
       ''Bearish Engulfing'' SELL 0.95 ''Strong Bearish Reversal - Sellers overpower buyers'' @
     pushIf (c_isRed c1 \<and> c_isGreen c0 \<and> c_open c0 > c_close c1 \<and> c_close c0 < c_open c1)
       ''Bullish Harami'' BUY 0.75 ''Bullish Reversal - Decreasing selling pressure'' @
     pushIf (c_isGreen c1 \<and> c_isRed c0 \<and> c_open c0 < c_close c1 \<and> c_close c0 > c_open c1)
       ''Bearish Harami'' SELL 0.75 ''Bearish Reversal - Decreasing buying pressure'' @
     pushIf (c_isRed c1 \<and> c_isGreen c0 \<and> c_open c0 < c_low c1 \<and>
             c_close c0 > (c_open c1 + c_close c1) / 2)
       ''Piercing Line'' BUY 0.85
       ''Bullish Reversal - Buyers entering after selling pressure'' @
     pushIf (c_isGreen c1 \<and> c_isRed c0 \<and> c_open c0 > c_high c1 \<and>
             c_close c0 < (c_open c1 + c_close c1) / 2)
       ''Dark Cloud Cover'' SELL 0.85
       ''Bearish Reversal - Sellers entering after buying pressure'' @
     pushIf (\<bar>c_high c1 - c_high c0\<bar> < (c_high c1 - c_low c1) * 0.01 \<and> c_isGreen c1 \<and>
             c_isRed c0)
       ''Tweezer Top'' SELL 0.7 ''Bearish Reversal - Failed attempt to move higher'' @
     pushIf (\<bar>c_low c1 - c_low c0\<bar> < (c_high c1 - c_low c1) * 0.01 \<and> c_isRed c1 \<and>
             c_isGreen c0)
       ''Tweezer Bottom'' BUY 0.7 ''Bullish Reversal - Failed attempt to move lower''"

text \<open>Lines 489-575, with \<open>c2\<close> the candle two back.\<close>

definition threeCandlePatterns :: "candle \<Rightarrow> candle \<Rightarrow> candle \<Rightarrow> pattern list" where
  "threeCandlePatterns c0 c1 c2 =
     pushIf (c_isRed c2 \<and> isDoji c1 \<and> c_isGreen c0 \<and> c_close c0 > c_open c2)
       ''Morning Star'' BUY 0.98 ''Powerful Bullish Reversal - Trend change confirmed'' @
     pushIf (c_isGreen c2 \<and> isDoji c1 \<and> c_isRed c0 \<and> c_close c0 < c_open c2)
       ''Evening Star'' SELL 0.98 ''Powerful Bearish Reversal - Trend change confirmed'' @
     pushIf (c_isGreen c2 \<and> c_isGreen c1 \<and> c_isGreen c0 \<and>
             c_close c1 > c_close c2 \<and> c_close c0 > c_close c1 \<and>
             c_open c1 > c_open c2 \<and> c_open c0 > c_open c1)
       ''Three White Soldiers'' BUY 0.9 ''Strong Bullish Trend - Continuous upward momentum'' @
     pushIf (c_isRed c2 \<and> c_isRed c1 \<and> c_isRed c0 \<and>
             c_close c1 < c_close c2 \<and> c_close c0 < c_close c1 \<and>
             c_open c1 < c_open c2 \<and> c_open c0 < c_open c1)
       ''Three Black Crows'' SELL 0.9 ''Strong Bearish Trend - Continuous downward momentum'' @
     pushIf (c_isRed c2 \<and> c_isGreen c1 \<and> c_open c1 > c_close c2 \<and> c_close c1 < c_open c2 \<and>
             c_isGreen c0 \<and> c_close c0 > c_close c1)
       ''Three Inside Up'' BUY 0.8 ''Bullish Continuation - Strengthening bullish trend'' @
     pushIf (c_isGreen c2 \<and> c_isRed c1 \<and> c_open c1 < c_close c2 \<and> c_close c1 > c_open c2 \<and>
             c_isRed c0 \<and> c_close c0 < c_close c1)
       ''Three Inside Down'' SELL 0.8 ''Bearish Continuation - Strengthening bearish trend'' @
     pushIf (c_isGreen c2 \<and> c_isRed c1 \<and> c_isGreen c0 \<and>
             c_open c1 < c_close c2 \<and> c_close c1 > c_open c0 \<and>
             c_bodyHeight c1 < min (c_bodyHeight c2) (c_bodyHeight c0))
       ''Rising Three Methods'' BUY 0.85
       ''Bullish Continuation - Brief consolidation before continuation'' @
     pushIf (c_isRed c2 \<and> c_isGreen c1 \<and> c_isRed c0 \<and>
             c_open c1 > c_close c2 \<and> c_close c1 < c_open c0 \<and>
             c_bodyHeight c1 < min (c_bodyHeight c2) (c_bodyHeight c0))
       ''Falling Three Methods'' SELL 0.85
       ''Bearish Continuation - Brief consolidation before continuation''"

text \<open>Lines 578-598.\<close>

definition gapPatterns :: "candle \<Rightarrow> candle \<Rightarrow> pattern list" where
  "gapPatterns c0 c1 =
     pushIf (c_low c0 > c_high c1) ''Gap Up'' BUY 0.7
       ''Bullish Signal - Strong buying interest'' @
     pushIf (c_high c0 < c_low c1) ''Gap Down'' SELL 0.7
       ''Bearish Signal - Strong selling interest''"


text \<open>
  The function returns the empty list on fewer than three candles (line 316), before any
  pattern is tried. After that \<open>c1\<close> and \<open>c2\<close> are \<open>null\<close> only if the series is too short
  for them; the final sort is stable and by descending strength.
\<close>

definition detectAllCandlestickPatterns :: "candle list \<Rightarrow> pattern list" where
  "detectAllCandlestickPatterns candles =
     (if length candles < 3 then []
      else
        let len = length candles;
            c0 = candles ! (len - 1);
            c1 = (if len \<ge> 2 then Some (candles ! (len - 2)) else None);
            c2 = (if len \<ge> 3 then Some (candles ! (len - 3)) else None);
            patterns =
              singleCandlePatterns c0 @
              (case c1 of Some c1' \<Rightarrow> twoCandlePatterns c0 c1' | None \<Rightarrow> []) @
              (case (c1, c2) of
                 (Some c1', Some c2') \<Rightarrow> threeCandlePatterns c0 c1' c2'
               | _ \<Rightarrow> []) @
              (case c1 of Some c1' \<Rightarrow> gapPatterns c0 c1' | None \<Rightarrow> [])
        in sort_key (\<lambda>p. - p_strength p) patterns)"

section \<open>Candle extraction (\<open>analyzeProfessionalCandlesticks\<close>, lines 166-312)\<close>

text \<open>
  The image: \<open>data\<close> holds four bytes (red, green, blue, alpha) for each pixel, row by
  row. A read beyond the array is \<open>undefined\<close>, and both colour tests are false on it.
\<close>

record imageData =
  img_data :: "nat list"
  img_width :: nat
  img_height :: nat

definition pixelAt :: "imageData \<Rightarrow> nat \<Rightarrow> real option" where
  "pixelAt img i = (if i < length (img_data img) then Some (real (img_data img ! i)) else None)"

definition colourAt ::
  "(real \<Rightarrow> real \<Rightarrow> real \<Rightarrow> bool) \<Rightarrow> imageData \<Rightarrow> nat \<Rightarrow> nat \<Rightarrow> bool" where
  "colourAt test img x y =
     (let i = (y * img_width img + x) * 4
      in case (pixelAt img i, pixelAt img (i + 1), pixelAt img (i + 2)) of
           (Some r, Some g, Some b) \<Rightarrow> test r g b
         | _ \<Rightarrow> False)"

definition isCandlePixel :: "imageData \<Rightarrow> nat \<Rightarrow> nat \<Rightarrow> bool" where
  "isCandlePixel img x y = (colourAt greenCandle img x y \<or> colourAt redCandle img x y)"

text \<open>
  The rows \<open>y\<close> of \<open>for (let y = 0; y < chartAreaHeight; y++)\<close>, in order. The chart area
  is a part of the image, so they are rows of the image.
\<close>

definition chartAreaHeight :: "imageData \<Rightarrow> real" where
  "chartAreaHeight img = real (img_height img) * candles_chartAreaRatio"

definition chartRows :: "imageData \<Rightarrow> nat list" where
  "chartRows img = filter (\<lambda>y. real y < chartAreaHeight img) [0 ..< img_height img]"

definition isCandleColumn :: "imageData \<Rightarrow> nat \<Rightarrow> bool" where
  "isCandleColumn img x = list_ex (isCandlePixel img x) (chartRows img)"

text \<open>The object \<open>currentCandle\<close> of the column scan, before it is measured.\<close>

record run =
  x_end :: nat
  x_start :: nat

text \<open>
  The column scan (lines 180-211), from column \<open>x\<close> down to column 1, on the list
  \<open>candles\<close> and \<open>currentCandle\<close>. The \<open>break\<close> at \<open>scanCount\<close> candles leaves
  \<open>currentCandle\<close> as it is.
\<close>

fun scanColumns :: "imageData \<Rightarrow> nat \<Rightarrow> run list \<Rightarrow> run option \<Rightarrow> run list \<times> run option" where
  "scanColumns img 0 candles currentCandle = (candles, currentCandle)"
| "scanColumns img (Suc n) candles currentCandle =
     (if isCandleColumn img (Suc n) then
        scanColumns img n candles
          (Some (case currentCandle of
                   None \<Rightarrow> \<lparr>x_end = Suc n, x_start = Suc n\<rparr>
                 | Some c \<Rightarrow> c\<lparr>x_start := Suc n\<rparr>))
      else
        case currentCandle of
          None \<Rightarrow> scanColumns img n candles None
        | Some c \<Rightarrow>
            if x_end c - x_start c \<ge> candles_minWidth then
              if length (candles @ [c]) \<ge> candles_scanCount then (candles @ [c], Some c)
              else scanColumns img n (candles @ [c]) None
            else scanColumns img n candles None)"

text \<open>
  A run of the column scan is well formed when it spans columns of which each holds a
  candle pixel.
\<close>

definition run_ok :: "imageData \<Rightarrow> run \<Rightarrow> bool" where
  "run_ok img r =
     (x_start r \<le> x_end r \<and>
      (\<forall>x. x_start r \<le> x \<and> x \<le> x_end r \<longrightarrow> isCandleColumn img x))"

text \<open>Lines 180-217: the scan and the candle still open at its end.\<close>

definition detectRuns :: "imageData \<Rightarrow> run list" where
  "detectRuns img =
     (case scanColumns img (img_width img - 1) [] None of
        (candles, currentCandle) \<Rightarrow>
          (case currentCandle of
             Some c \<Rightarrow>
               if x_end c - x_start c \<ge> candles_minWidth \<and> length candles < candles_scanCount
               then candles @ [c] else candles
           | None \<Rightarrow> candles))"

text \<open>Lines 234-244: the first and the last candle pixel of column \<open>midX\<close>.\<close>

definition findBounds :: "imageData \<Rightarrow> nat \<Rightarrow> nat \<times> nat" where
  "findBounds img midX =
     fold (\<lambda>y (high, low).
             if isCandlePixel img midX y
             then ((if high = img_height img then y else high), y)
             else (high, low))
          (chartRows img) (img_height img, 0)"

text \<open>Lines 257-272: the first and the last pixel of the candle's own colour.\<close>

definition findBody :: "imageData \<Rightarrow> nat \<Rightarrow> bool \<Rightarrow> nat \<Rightarrow> nat \<Rightarrow> nat \<times> nat \<times> bool" where
  "findBody img midX isGreen high low =
     fold (\<lambda>y (bodyHigh, bodyLow, inBody).
             let isColorMatch = ((isGreen \<and> colourAt greenCandle img midX y) \<or>
                                 (\<not> isGreen \<and> colourAt redCandle img midX y))
             in if isColorMatch
                then ((if \<not> inBody then y else bodyHigh), y, True)
                else (bodyHigh, bodyLow, inBody))
          [high ..< Suc low] (img_height img, 0, False)"

text \<open>Lines 274-289: the fields derived from the four measured rows.\<close>

definition deriveCandle :: "run \<Rightarrow> bool \<Rightarrow> real \<Rightarrow> real \<Rightarrow> real \<Rightarrow> real \<Rightarrow> candle" where
  "deriveCandle r isGreen high low bodyHigh bodyLow =
     (let totalHeight = max 1 (low - high);
          openP = (if isGreen then bodyLow else bodyHigh);
          closeP = (if isGreen then bodyHigh else bodyLow);
          bodyHeight = \<bar>closeP - openP\<bar>;
          upperWick = (if isGreen then closeP else openP) - high;
          lowerWick = low - (if isGreen then openP else closeP)
      in \<lparr>c_x_end = x_end r, c_x_start = x_start r,
          c_isGreen = isGreen, c_isRed = (\<not> isGreen),
          c_high = high, c_low = low, c_totalHeight = totalHeight,
          c_bodyTop = bodyHigh, c_bodyBottom = bodyLow,
          c_open = openP, c_close = closeP, c_bodyHeight = bodyHeight,
          c_upperWick = upperWick, c_lowerWick = lowerWick,
          c_bodyRatio = bodyHeight / totalHeight,
          c_upperWickRatio = upperWick / max 1 totalHeight,
          c_lowerWickRatio = lowerWick / max 1 totalHeight\<rparr>)"

text \<open>The body of \<open>for (const candle of candles)\<close> (lines 224-290).\<close>

definition processCandle :: "imageData \<Rightarrow> run \<Rightarrow> candle" where
  "processCandle img r =
     (let midX = nat (js_round (real (x_start r + x_end r) / 2));
          (high, low) = findBounds img midX;
          greenPixels = length (filter (colourAt greenCandle img midX) [high ..< Suc low]);
          redPixels = length (filter (colourAt redCandle img midX) [high ..< Suc low]);
          isGreen = (greenPixels > redPixels);
          (bodyHigh, bodyLow, inBody) = findBody img midX isGreen high low
      in deriveCandle r isGreen (real high) (real low) (real bodyHigh) (real bodyLow))"

datatype analysisError = NoCandlesDetected | NoValidCandles

text \<open>
  The two \<open>throw\<close> statements are the two errors. The pattern \<open>'No Pattern'\<close> that stands
  for an empty pattern list has no description.
\<close>

definition analyzeProfessionalCandlesticks :: "imageData \<Rightarrow> analysisError + candleAnalysis" where
  "analyzeProfessionalCandlesticks img =
     (let runs = detectRuns img
      in if length runs = 0 then Inl NoCandlesDetected
         else
           let candles = rev (map (processCandle img) runs);
               validCandles = filter (\<lambda>c. c_totalHeight c > 0) candles
           in if length validCandles = 0 then Inl NoValidCandles
              else
                let patterns = detectAllCandlestickPatterns validCandles
                in Inr \<lparr>ca_candles = validCandles, ca_patterns = patterns,
                        ca_mainPattern =
                          (case patterns of
                             p # _ \<Rightarrow> p
                           | [] \<Rightarrow> \<lparr>p_name = utf16 ''No Pattern'', p_signal = HOLD,
                                    p_strength = 0, p_description = []\<rparr>)\<rparr>)"

section \<open>Quantitative helpers (lines 1162-1247)\<close>

text \<open>
  \<open>calculateSMA\<close> and \<open>calculateEMA\<close> return \<open>null\<close> on a short series. Every call passes a
  positive period (9, 12, 20, 26 or 50), so the division by the period and the read of
  \<open>candles[0]\<close> are defined.
\<close>

definition calculateSMA :: "candle list \<Rightarrow> nat \<Rightarrow> real option" where
  "calculateSMA candles period =
     (if length candles < period then None
      else Some (fold (\<lambda>candle acc. acc + c_close candle)
                   (js_slice_from (- int period) candles) 0 / real period))"

definition calculateEMA :: "candle list \<Rightarrow> nat \<Rightarrow> real option" where
  "calculateEMA candles period =
     (if length candles < period then None
      else case candles of
        [] \<Rightarrow> None
      | c # cs \<Rightarrow>
          let k = 2 / (real period + 1)
          in Some (fold (\<lambda>candle ema. c_close candle * k + ema * (1 - k)) cs (c_close c)))"

text \<open>
  The loop of \<open>calculateRSI\<close> (lines 1189-1196) over the last \<open>period\<close> changes of the
  close, as the pair \<open>(gains, losses)\<close>. It runs only when the series is longer than the
  period, so \<open>candles[i - 1]\<close> exists.
\<close>

definition rsiGainsLosses :: "candle list \<Rightarrow> nat \<Rightarrow> real \<times> real" where
  "rsiGainsLosses candles period =
     fold (\<lambda>i (gains, losses).
             let change = c_close (candles ! i) - c_close (candles ! (i - 1))
             in if change > 0 then (gains + change, losses) else (gains, losses - change))
          [length candles - period ..< length candles] (0, 0)"

definition rsiAvgGain :: "candle list \<Rightarrow> nat \<Rightarrow> jsnum" where
  "rsiAvgGain candles period = js_div (fst (rsiGainsLosses candles period)) (real period)"

definition rsiAvgLoss :: "candle list \<Rightarrow> nat \<Rightarrow> jsnum" where
  "rsiAvgLoss candles period = js_div (snd (rsiGainsLosses candles period)) (real period)"

text \<open>
  With a period of zero both averages are \<open>0 / 0\<close>, and the result is NaN. Otherwise both
  are numbers, the gains are not negative and the losses positive where they are divided by.
\<close>

definition calculateRSI :: "candle list \<Rightarrow> nat \<Rightarrow> jsnum" where
  "calculateRSI candles period =
     (if length candles \<le> period then Num 50
      else case (rsiAvgGain candles period, rsiAvgLoss candles period) of
        (Num avgGain, Num avgLoss) \<Rightarrow>
          if avgLoss = 0 then Num 100
          else let rs = avgGain / avgLoss in Num (100 - (100 / (1 + rs)))
      | _ \<Rightarrow> NaN)"

definition calculateVolatility :: "candle list \<Rightarrow> nat \<Rightarrow> jsnum" where
  "calculateVolatility candles period =
     (if length candles \<le> period then Num 0
      else
        let closes = map c_close (js_slice_from (- int period) candles);
            mean = fold (\<lambda>b a. a + b) closes 0 / real (length closes);
            squareDiffs = map (\<lambda>v. (v - mean) * (v - mean)) closes;
            avgSquareDiff = fold (\<lambda>b a. a + b) squareDiffs 0 / real (length squareDiffs);
            stdDev = sqrt avgSquareDiff
        in js_div stdDev mean)"

definition calculateTrendStrength :: "candle list \<Rightarrow> real" where
  "calculateTrendStrength candles =
     (if length candles < 10 then 0
      else
        let recentCandles = js_slice_from (-10) candles;
            (upDays, downDays) =
              fold (\<lambda>i (upDays, downDays).
                      if c_close (recentCandles ! i) > c_close (recentCandles ! (i - 1))
                        then (upDays + 1, downDays)
                      else if c_close (recentCandles ! i) < c_close (recentCandles ! (i - 1))
                        then (upDays, downDays + 1)
                      else (upDays, downDays))
                   [1 ..< length recentCandles] (0 :: int, 0 :: int)
        in real_of_int (upDays - downDays) / 10)"

definition calculateMomentum :: "candle list \<Rightarrow> jsnum" where
  "calculateMomentum candles =
     (if length candles < 10 then Num 0
      else
        let currentPrice = c_close (candles ! (length candles - 1));
            price10DaysAgo = c_close (candles ! (length candles - 10))
        in js_div (currentPrice - price10DaysAgo) price10DaysAgo)"

section \<open>Quantitative analysis (\<open>performQuantitativeAnalysis\<close>, lines 1074-1159)\<close>

text \<open>The RSI thresholds of lines 1110-1116, for each kind of number the RSI can be.\<close>

fun rsiSignal :: "jsnum \<Rightarrow> signal \<times> real" where
  "rsiSignal (Num rsi) =
     (if rsi > 75 then (SELL, min ((rsi - 75) / 25) 1 * 0.9)
      else if rsi < 25 then (BUY, min ((25 - rsi) / 25) 1 * 0.9)
      else (HOLD, 0))"
| "rsiSignal PosInf = (SELL, 0.9)"
| "rsiSignal NegInf = (BUY, 0.9)"
| "rsiSignal NaN = (HOLD, 0)"

text \<open>
  The array \<open>priceChanges\<close> of lines 1078-1081 is never read and is left out. Fewer than
  14 candles give \<open>null\<close>.
\<close>

definition performQuantitativeAnalysis :: "candle list \<Rightarrow> quantAnalysis option" where
  "performQuantitativeAnalysis candles =
     (if length candles < 14 then None
      else
        let sma9 = calculateSMA candles 9;
            sma20 = calculateSMA candles 20;
            sma50 = calculateSMA candles 50;
            ema9 = calculateEMA candles 9;
            ema20 = calculateEMA candles 20;
            ema50 = calculateEMA candles 50;
            rsi = calculateRSI candles 14;
            volatility = calculateVolatility candles 14;
            trendStrength = calculateTrendStrength candles;
            momentum = calculateMomentum candles;
            (signal1, strength1) = rsiSignal rsi;
            (signal2, strength2) =
              (if truthy sma9 \<and> truthy sma20 \<and> truthy sma50 then
                 let maDiff = (the sma9 - the sma20) / the sma20
                 in if maDiff > 0.005 then
                      let newStrength = min (maDiff * 100) 1 * 0.7
                      in if newStrength > strength1 then (BUY, newStrength)
                         else (signal1, strength1)
                    else if maDiff < - 0.005 then
                      let newStrength = min (\<bar>maDiff\<bar> * 100) 1 * 0.7
                      in if newStrength > strength1 then (SELL, newStrength)
                         else (signal1, strength1)
                    else (signal1, strength1)
               else (signal1, strength1));
            strength3 = (if js_gt volatility 0.03 then strength2 * 0.7 else strength2)
        in Some \<lparr>q_signal = signal2, q_strength = strength3,
                 q_indicators =
                   \<lparr>qi_rsi = rsi, qi_sma9 = sma9, qi_sma20 = sma20, qi_sma50 = sma50,
                    qi_ema9 = ema9, qi_ema20 = ema20, qi_ema50 = ema50,
                    qi_volatility = volatility, qi_trendStrength = trendStrength,
                    qi_momentum = momentum\<rparr>\<rparr>)"

section \<open>Moving averages (\<open>analyzeMovingAverages\<close>, lines 877-939)\<close>

definition analyzeMovingAverages :: "candle list \<Rightarrow> maAnalysis" where
  "analyzeMovingAverages candles =
     (if length candles < 50 then
        \<lparr>ma_signal = HOLD, ma_strength = 0, ma_indicators = None\<rparr>
      else
        let sma9 = calculateSMA candles 9;
            sma20 = calculateSMA candles 20;
            sma50 = calculateSMA candles 50;
            ema9 = calculateEMA candles 9;
            ema20 = calculateEMA candles 20;
            ema50 = calculateEMA candles 50;
            prevCandles = js_slice (-2) (-1) candles;
            prevSma9 = calculateSMA (js_slice 0 (-1) candles) 9;
            prevSma20 = calculateSMA (js_slice 0 (-1) candles) 20;
            prevSma50 = calculateSMA (js_slice 0 (-1) candles) 50;
            (signal, strength) =
              (if truthy sma20 \<and> truthy sma50 \<and> truthy sma9 \<and> length prevCandles > 0 \<and>
                  truthy prevSma20 \<and> truthy prevSma50 \<and> truthy prevSma9 then
                 if the sma20 > the sma50 \<and> the prevSma20 \<le> the prevSma50 then (BUY, 0.85)
                 else if the sma20 < the sma50 \<and> the prevSma20 \<ge> the prevSma50 then (SELL, 0.85)
                 else if the sma9 > the sma20 \<and> the sma20 > the sma50 then (BUY, 0.7)
                 else if the sma9 < the sma20 \<and> the sma20 < the sma50 then (SELL, 0.7)
                 else (HOLD, 0)
               else (HOLD, 0))
        in \<lparr>ma_signal = signal, ma_strength = strength,
            ma_indicators =
              Some \<lparr>mi_sma9 = sma9, mi_sma20 = sma20, mi_sma50 = sma50,
                    mi_ema9 = ema9, mi_ema20 = ema20, mi_ema50 = ema50\<rparr>\<rparr>)"

section \<open>MACD (\<open>analyzeMACD\<close>, lines 942-1020)\<close>

text \<open>The MACD line of a prefix of the series, when both averages are truthy.\<close>

definition macdOf :: "candle list \<Rightarrow> real option" where
  "macdOf slice =
     (let e12 = calculateEMA slice 12; e26 = calculateEMA slice 26
      in if truthy e12 \<and> truthy e26 then Some (the e12 - the e26) else None)"

definition analyzeMACD :: "candle list \<Rightarrow> macdAnalysis" where
  "analyzeMACD candles =
     (if length candles < 26 then
        \<lparr>macd_signal = HOLD, macd_strength = 0, macd_indicators = None\<rparr>
      else
        let ema12 = calculateEMA candles 12;
            ema26 = calculateEMA candles 26
        in if \<not> truthy ema12 \<or> \<not> truthy ema26 then
             \<lparr>macd_signal = HOLD, macd_strength = 0, macd_indicators = None\<rparr>
           else
             let macdLine = the ema12 - the ema26;
                 macdValues =
                   fold (\<lambda>i acc.
                           case macdOf (js_slice 0 (int (length candles) - int i) candles) of
                             Some v \<Rightarrow> v # acc
                           | None \<Rightarrow> acc)
                        [0 ..< min 9 (length candles)] [];
                 signalLine =
                   (if length macdValues > 0
                    then fold (\<lambda>b a. a + b) macdValues 0 / real (length macdValues)
                    else 0);
                 histogram = macdLine - signalLine;
                 (signal, strength) =
                   (if macdLine > 0 \<and> histogram > 0 then (BUY, min (\<bar>histogram\<bar> * 10) 1)
                    else if macdLine < 0 \<and> histogram < 0 then (SELL, min (\<bar>histogram\<bar> * 10) 1)
                    else (HOLD, 0));
                 strength' =
                   (if length candles \<ge> 3 then
                      let prevCandles = js_slice (-3) (-1) candles;
                          prevMacdValues =
                            map (\<lambda>i. case macdOf (js_slice 0 (int (length candles) - 2 + int i)
                                                    candles) of
                                        Some v \<Rightarrow> v
                                      | None \<Rightarrow> 0)
                                [0 ..< length prevCandles];
                          prevHistogram =
                            (if length prevMacdValues > 0
                             then last prevMacdValues -
                                  fold (\<lambda>b a. a + b) prevMacdValues 0 /
                                    real (length prevMacdValues)
                             else 0)
                      in if histogram > prevHistogram \<and> signal = BUY then min (strength * 1.3) 1
                         else if histogram < prevHistogram \<and> signal = SELL
                           then min (strength * 1.3) 1
                         else strength
                    else strength)
             in \<lparr>macd_signal = signal, macd_strength = strength',
                 macd_indicators =
                   Some \<lparr>md_macdLine = macdLine, md_signalLine = signalLine,
                         md_histogram = histogram\<rparr>\<rparr>)"

section \<open>Donchian channels (\<open>analyzeDonchianChannels\<close>, lines 796-874)\<close>

text \<open>
  The body of \<open>periods.forEach\<close> for a period that the series covers (lines 808-857). The
  test \<open>candles.length >= 3\<close> is kept although the function has already returned on fewer
  than 20 candles.
\<close>

definition donchianForPeriod :: "candle list \<Rightarrow> nat \<Rightarrow> donchianPeriod" where
  "donchianForPeriod candles period =
     (let recentCandles = js_slice_from (- int period) candles;
          highest = list_max (map c_high recentCandles);
          lowest = list_min (map c_low recentCandles);
          middle = (highest + lowest) / 2;
          currentPrice = c_close (candles ! (length candles - 1));
          breakoutThreshold = (highest - lowest) * donchian_breakoutThreshold;
          (signal, strength, position) =
            (if currentPrice > highest - breakoutThreshold then
               let confirmed =
                     (if length candles \<ge> 3
                      then list_all (\<lambda>c. c_close c > highest - breakoutThreshold)
                             (js_slice_from (-3) candles)
                      else True)
               in if confirmed then (BUY, 0.9, ''upper_breakout'') else (HOLD, 0, ''middle'')
             else if currentPrice < lowest + breakoutThreshold then
               let confirmed =
                     (if length candles \<ge> 3
                      then list_all (\<lambda>c. c_close c < lowest + breakoutThreshold)
                             (js_slice_from (-3) candles)
                      else True)
               in if confirmed then (SELL, 0.9, ''lower_breakout'') else (HOLD, 0, ''middle'')
             else (HOLD, 0, ''middle''))
      in \<lparr>dp_period = period, dp_highest = highest, dp_lowest = lowest, dp_middle = middle,
          dp_signal = signal, dp_strength = strength, dp_position = position\<rparr>)"

text \<open>The results of \<open>periods.forEach\<close>: one for each period that the series covers.\<close>

definition donchianResults :: "candle list \<Rightarrow> donchianPeriod list" where
  "donchianResults candles =
     map (donchianForPeriod candles)
       (filter (\<lambda>period. length candles \<ge> period) donchian_periods)"

text \<open>
  The callback of \<open>results.reduce\<close> on \<open>(signal, strength, position)\<close>: it moves to a result
  only when that is strictly stronger. The reduction starts from
  \<open>{signal: 'HOLD', strength: 0}\<close>, which has no position.
\<close>

definition strongestSignal ::
  "donchianPeriod \<Rightarrow> signal \<times> real \<times> string option \<Rightarrow> signal \<times> real \<times> string option" where
  "strongestSignal current best =
     (case best of (signal, strength, position) \<Rightarrow>
        if dp_strength current > strength
        then (dp_signal current, dp_strength current, Some (dp_position current))
        else (signal, strength, position))"

definition analyzeDonchianChannels :: "candle list \<Rightarrow> donchianAnalysis" where
  "analyzeDonchianChannels candles =
     (if length candles < 20 then
        \<lparr>dc_signal = HOLD, dc_strength = 0, dc_position = Some ''middle'',
         dc_allPeriods = None\<rparr>
      else
        let results = donchianResults candles
        in case fold strongestSignal results (HOLD, 0, None) of
             (signal, strength, position) \<Rightarrow>
               \<lparr>dc_signal = signal, dc_strength = strength, dc_position = position,
                dc_allPeriods = Some results\<rparr>)"

text \<open>
  The two bands that the closes are compared with (lines 819-839):
  \<open>highest - breakoutThreshold\<close> and \<open>lowest + breakoutThreshold\<close>, where
  \<open>breakoutThreshold = (highest - lowest) * config.donchian.breakoutThreshold\<close>.
\<close>

definition upperBand :: "donchianPeriod \<Rightarrow> real" where
  "upperBand r = dp_highest r - (dp_highest r - dp_lowest r) * donchian_breakoutThreshold"

definition lowerBand :: "donchianPeriod \<Rightarrow> real" where
  "lowerBand r = dp_lowest r + (dp_highest r - dp_lowest r) * donchian_breakoutThreshold"

section \<open>Support and resistance (\<open>analyzeSupportResistance\<close>, lines 636-793)\<close>

record point =
  pt_y :: real
  pt_type :: string
  pt_index :: nat
  pt_weight :: real
  pt_candle :: candle

text \<open>The object \<open>currentLevel\<close> of the clustering loop.\<close>

record cluster =
  cl_sum :: real
  cl_weightedSum :: real
  cl_touches :: nat
  cl_values :: "real list"
  cl_type :: string
  cl_indices :: "nat list"
  cl_candles :: "candle list"

text \<open>Lines 650-668: the high and the low of every candle, recent candles weighing more.\<close>

definition collectPoints :: "candle list \<Rightarrow> point list" where
  "collectPoints candles =
     concat (map (\<lambda>(i, c).
                    let weight = 1 + (real i / real (length candles)) * 2
                    in [\<lparr>pt_y = c_high c, pt_type = ''resistance'', pt_index = i,
                         pt_weight = weight, pt_candle = c\<rparr>,
                        \<lparr>pt_y = c_low c, pt_type = ''support'', pt_index = i,
                         pt_weight = weight, pt_candle = c\<rparr>])
                 (enumerate 0 candles))"

definition newCluster :: "point \<Rightarrow> cluster" where
  "newCluster p =
     \<lparr>cl_sum = pt_y p * pt_weight p, cl_weightedSum = pt_weight p, cl_touches = 1,
      cl_values = [pt_y p], cl_type = pt_type p, cl_indices = [pt_index p],
      cl_candles = [pt_candle p]\<rparr>"

definition addToCluster :: "point \<Rightarrow> cluster \<Rightarrow> cluster" where
  "addToCluster p cl =
     cl\<lparr>cl_sum := cl_sum cl + pt_y p * pt_weight p,
        cl_weightedSum := cl_weightedSum cl + pt_weight p,
        cl_touches := cl_touches cl + 1,
        cl_values := cl_values cl @ [pt_y p],
        cl_indices := cl_indices cl @ [pt_index p],
        cl_candles := cl_candles cl @ [pt_candle p]\<rparr>"

definition levelOf :: "cluster \<Rightarrow> level" where
  "levelOf cl =
     (let weightedAverage = cl_sum cl / cl_weightedSum cl
      in \<lparr>l_level = js_round weightedAverage,
          l_touches = cl_touches cl,
          l_strength = min (real (cl_touches cl) / 6) 1 *
                       (cl_weightedSum cl / real (cl_touches cl) / 2),
          l_indices = cl_indices cl,
          l_candles = cl_candles cl\<rparr>)"

definition flushCluster :: "cluster \<Rightarrow> level list \<Rightarrow> level list" where
  "flushCluster cl levels =
     (if cl_touches cl \<ge> sr_minTouches then levels @ [levelOf cl] else levels)"

text \<open>The body of the clustering loop (lines 684-719), on the pair \<open>(levels, currentLevel)\<close>.\<close>

definition clusterStep ::
  "nat \<Rightarrow> nat \<Rightarrow> point \<Rightarrow> level list \<times> cluster \<Rightarrow> level list \<times> cluster" where
  "clusterStep imageHeight n p st =
     (case st of (levels, currentLevel) \<Rightarrow>
        let distance = pt_y p - last (cl_values currentLevel);
            dynamicTolerance = real imageHeight * sr_clusterTolerance *
                               (1 + (real (pt_index p) / real n) * 0.5)
        in if distance < dynamicTolerance then (levels, addToCluster p currentLevel)
           else (flushCluster currentLevel levels, newCluster p))"

text \<open>
  Lines 738-745. The source compares levels by identity (\<open>otherLevel !== level\<close>), which
  the model renders by their positions in \<open>levels\<close>.
\<close>

definition validateLevels :: "nat \<Rightarrow> level list \<Rightarrow> level list" where
  "validateLevels imageHeight levels =
     map snd
       (filter (\<lambda>(i, level).
                  \<not> list_ex (\<lambda>(j, otherLevel).
                                j \<noteq> i \<and>
                                l_strength otherLevel > l_strength level * 1.2 \<and>
                                \<bar>real_of_int (l_level otherLevel) - real_of_int (l_level level)\<bar>
                                  < real imageHeight * sr_clusterTolerance * 3)
                             (enumerate 0 levels))
               (enumerate 0 levels))"

text \<open>The width of the zone around the nearest level, 0 when there is none.\<close>

definition zoneOf :: "nat \<Rightarrow> level option \<Rightarrow> real" where
  "zoneOf imageHeight nearest =
     (case nearest of
        Some l \<Rightarrow> real imageHeight * sr_zoneProximity * (1 + (l_strength l * 0.7))
      | None \<Rightarrow> 0)"

definition firstOf :: "'a list \<Rightarrow> 'a option" where
  "firstOf xs = (case xs of [] \<Rightarrow> None | x # _ \<Rightarrow> Some x)"

definition analyzeSupportResistance :: "candle list \<Rightarrow> nat \<Rightarrow> srAnalysis" where
  "analyzeSupportResistance candles imageHeight =
     (if length candles < 8 then
        \<lparr>sr_supports = [], sr_resistances = [], sr_signal = HOLD, sr_strength = 0,
         sr_levels = None\<rparr>
      else
        let points = sort_key pt_y (collectPoints candles);
            levels =
              (case points of
                 [] \<Rightarrow> []
               | p0 # rest \<Rightarrow>
                   (case fold (clusterStep imageHeight (length candles)) rest ([], newCluster p0)
                    of (levels, currentLevel) \<Rightarrow> flushCluster currentLevel levels));
            lastCandle = candles ! (length candles - 1);
            currentPrice = c_close lastCandle;
            validatedLevels = validateLevels imageHeight levels;
            supports = sort_key l_level
                         (filter (\<lambda>l. real_of_int (l_level l) > currentPrice) validatedLevels);
            resistances = sort_key (\<lambda>l. - l_level l)
                         (filter (\<lambda>l. real_of_int (l_level l) < currentPrice) validatedLevels);
            nearestSupport = firstOf supports;
            nearestResistance = firstOf resistances;
            supportZone = zoneOf imageHeight nearestSupport;
            resistanceZone = zoneOf imageHeight nearestResistance;
            recentCandles = js_slice (- int sr_confirmationCandles - 1) (-1) candles;
            supportConfirmed =
              (length candles \<ge> sr_confirmationCandles + 1 \<and>
               list_ex (\<lambda>c. case nearestSupport of
                               Some l \<Rightarrow> \<bar>c_low c - real_of_int (l_level l)\<bar> < supportZone * 0.5
                             | None \<Rightarrow> False) recentCandles);
            resistanceConfirmed =
              (length candles \<ge> sr_confirmationCandles + 1 \<and>
               list_ex (\<lambda>c. case nearestResistance of
                               Some l \<Rightarrow> \<bar>c_high c - real_of_int (l_level l)\<bar> < resistanceZone * 0.5
                             | None \<Rightarrow> False) recentCandles);
            nearResistance =
              (case nearestResistance of
                 Some l \<Rightarrow> \<bar>currentPrice - real_of_int (l_level l)\<bar> < resistanceZone \<and>
                           resistanceConfirmed
               | None \<Rightarrow> False);
            nearSupport =
              (case nearestSupport of
                 Some l \<Rightarrow> \<bar>currentPrice - real_of_int (l_level l)\<bar> < supportZone \<and>
                           supportConfirmed
               | None \<Rightarrow> False);
            (signal, strength) =
              (if nearResistance then (SELL, min (l_strength (the nearestResistance) * 1.2) 1)
               else if nearSupport then (BUY, min (l_strength (the nearestSupport) * 1.2) 1)
               else (HOLD, 0))
        in \<lparr>sr_supports = supports, sr_resistances = resistances, sr_signal = signal,
            sr_strength = strength, sr_levels = Some validatedLevels\<rparr>)"

section \<open>Combined signal (\<open>combineTechnicalSignals\<close>, lines 1023-1071)\<close>

text \<open>
  \<open>quantAnalysis.strength || 0.5\<close> replaces a strength of zero by 0.5; a \<open>null\<close> analysis
  adds no entry.
\<close>

definition combineTechnicalSignals ::
  "srAnalysis \<Rightarrow> donchianAnalysis \<Rightarrow> quantAnalysis option \<Rightarrow> maAnalysis \<Rightarrow> macdAnalysis
     \<Rightarrow> combinedSignal" where
  "combineTechnicalSignals srA donchianA quantA maA macdA =
     (let signals =
            [(sr_signal srA, sr_strength srA * 1.2),
             (dc_signal donchianA, dc_strength donchianA),
             (ma_signal maA, ma_strength maA * 0.9),
             (macd_signal macdA, macd_strength macdA)] @
            (case quantA of
               Some q \<Rightarrow> [(q_signal q, (if q_strength q = 0 then 0.5 else q_strength q) * 0.8)]
             | None \<Rightarrow> []);
          buyScore = fold (\<lambda>(sig, strength) acc. if sig = BUY then acc + strength else acc)
                       signals 0;
          sellScore = fold (\<lambda>(sig, strength) acc. if sig = SELL then acc + strength else acc)
                        signals 0;
          totalScore = buyScore + sellScore
      in if totalScore = 0 then \<lparr>cs_signal = HOLD, cs_confidence = 0\<rparr>
         else if buyScore > sellScore then
           \<lparr>cs_signal = BUY, cs_confidence = min 98 ((buyScore / totalScore) * 100)\<rparr>
         else
           \<lparr>cs_signal = SELL, cs_confidence = min 98 ((sellScore / totalScore) * 100)\<rparr>)"

section \<open>Technical analysis (\<open>performTechnicalAnalysis\<close>, lines 605-633)\<close>

definition performTechnicalAnalysis :: "candle list \<Rightarrow> nat \<Rightarrow> technicalAnalysis" where
  "performTechnicalAnalysis candles height =
     (let srAnalysis = analyzeSupportResistance candles height;
          donchianAnalysis = analyzeDonchianChannels candles;
          quantAnalysis = performQuantitativeAnalysis candles;
          maAnalysis = analyzeMovingAverages candles;
          macdAnalysis = analyzeMACD candles
      in \<lparr>ta_supportResistance = srAnalysis,
          ta_donchianChannels = donchianAnalysis,
          ta_quantitative = quantAnalysis,
          ta_movingAverages = maAnalysis,
          ta_macd = macdAnalysis,
          ta_combinedSignal =
            combineTechnicalSignals srAnalysis donchianAnalysis quantAnalysis maAnalysis
              macdAnalysis\<rparr>)"

section \<open>Recommendation generator (\<open>generateProfessionalRecommendation\<close>, lines 1250-1500)\<close>

text \<open>
  \<open>pattern.name.replace(/\s/g, '')\<close> deletes the white space of the name. \<open>\s\<close> matches the
  white space and line terminator code units of ECMAScript: tab, line feed, vertical tab,
  form feed, carriage return, space, no-break space, U+1680, U+2000 to U+200A, U+2028,
  U+2029, U+202F, U+205F, U+3000 and U+FEFF.
\<close>

definition whitespace :: "int \<Rightarrow> bool" where
  "whitespace c =
     (c \<in> set [0x09, 0x0A, 0x0B, 0x0C, 0x0D, 0x20, 0xA0, 0x1680, 0x2028, 0x2029, 0x202F,
               0x205F, 0x3000, 0xFEFF] \<or>
      (0x2000 \<le> c \<and> c \<le> 0x200A))"

definition scoreKey :: "jsstring \<Rightarrow> jsstring" where
  "scoreKey name = filter (\<lambda>c. \<not> whitespace c) name"

text \<open>
  \<open>config.scores\<close> is an object literal, so besides its own keys it answers to the
  properties of \<open>Object.prototype\<close>.
\<close>

definition objectPrototypeKeys :: "string list" where
  "objectPrototypeKeys =
     [''constructor'', ''hasOwnProperty'', ''isPrototypeOf'', ''propertyIsEnumerable'',
      ''toLocaleString'', ''toString'', ''valueOf'', ''__proto__'',
      ''__defineGetter__'', ''__defineSetter__'', ''__lookupGetter__'', ''__lookupSetter__'']"

definition inheritedKey :: "jsstring \<Rightarrow> bool" where
  "inheritedKey key = (key \<in> set (map utf16 objectPrototypeKeys))"

text \<open>
  \<open>config.scores[key] || 2.0\<close>, as the factor it is in \<open>baseScore * pattern.strength\<close>. An
  own key gives its score, or 2 if that is zero. An inherited key gives a function (an
  object for \<open>__proto__\<close>), which is truthy and whose product with a number is NaN. Any
  other key gives 2. The table's keys start with a lower-case letter and the detector's
  names with a capital, so every detected pattern gets the default.
\<close>

definition baseScore :: "jsstring \<Rightarrow> real nan_or" where
  "baseScore name =
     (let key = scoreKey name
      in case map_of (map (\<lambda>(k, v). (utf16 k, v)) config_scores) key of
           Some v \<Rightarrow> Number (if v = 0 then 2.0 else v)
         | None \<Rightarrow> if inheritedKey key then NotANumber else Number 2.0)"

text \<open>The running state of the scoring: \<open>buyScore\<close>, \<open>sellScore\<close> and \<open>summary\<close>.\<close>

type_synonym scoring = "real nan_or \<times> real nan_or \<times> factor list"

fun addBuy :: "real nan_or \<Rightarrow> jsstring \<Rightarrow> scoring \<Rightarrow> scoring" where
  "addBuy score txt (buyScore, sellScore, summary) =
     (nan_lift2 (+) buyScore score, sellScore,
      summary @ [\<lparr>f_type = bullish, f_text = txt, f_impact = score\<rparr>])"

fun addSell :: "real nan_or \<Rightarrow> jsstring \<Rightarrow> scoring \<Rightarrow> scoring" where
  "addSell score txt (buyScore, sellScore, summary) =
     (buyScore, nan_lift2 (+) sellScore score,
      summary @ [\<lparr>f_type = bearish, f_text = txt, f_impact = score\<rparr>])"

text \<open>The body of \<open>candleAnalysis.patterns.forEach\<close> (lines 1256-1274).\<close>

definition scorePattern :: "pattern \<Rightarrow> scoring \<Rightarrow> scoring" where
  "scorePattern p st =
     (let score = nan_lift2 (*) (baseScore (p_name p)) (Number (p_strength p));
          txt = p_name p @ utf16 '': '' @ p_description p
      in if p_signal p = BUY then addBuy score txt st
         else if p_signal p = SELL then addSell score txt st
         else st)"

text \<open>
  The five indicator blocks (lines 1276-1354) have one shape: a BUY signal adds
  \<open>weight * strength\<close> to the buy score, a SELL signal to the sell score.
\<close>

definition scoreIndicator ::
  "signal \<Rightarrow> real \<Rightarrow> real \<Rightarrow> real \<Rightarrow> string \<Rightarrow> string \<Rightarrow> scoring \<Rightarrow> scoring" where
  "scoreIndicator sig strength buyWeight sellWeight buyText sellText st =
     (if sig = BUY then addBuy (Number (buyWeight * strength)) (utf16 buyText) st
      else if sig = SELL then addSell (Number (sellWeight * strength)) (utf16 sellText) st
      else st)"

text \<open>The quantitative block (lines 1356-1375) skips a \<open>null\<close> result.\<close>

definition scoreQuantitative :: "quantAnalysis option \<Rightarrow> scoring \<Rightarrow> scoring" where
  "scoreQuantitative quantSignal st =
     (case quantSignal of
        None \<Rightarrow> st
      | Some q \<Rightarrow>
          if q_signal q \<noteq> HOLD then
            scoreIndicator (q_signal q) (q_strength q) 3.0 3.0
              ''Quantitative Analysis: BUY'' ''Quantitative Analysis: SELL'' st
          else st)"

definition accumulateScores :: "candleAnalysis \<Rightarrow> technicalAnalysis \<Rightarrow> scoring" where
  "accumulateScores candleAnalysis ta =
     (let st0 = fold scorePattern (ca_patterns candleAnalysis) (Number 0, Number 0, []);
          srSignal = ta_supportResistance ta;
          st1 = scoreIndicator (sr_signal srSignal) (sr_strength srSignal)
                  scores_strongSupport scores_strongResistance
                  ''Strong Support Level Detected'' ''Strong Resistance Level Detected'' st0;
          donchianSignal = ta_donchianChannels ta;
          st2 = scoreIndicator (dc_signal donchianSignal) (dc_strength donchianSignal)
                  scores_upperBreakout scores_lowerBreakout
                  ''Donchian Upper Breakout Detected'' ''Donchian Lower Breakout Detected'' st1;
          maSignal = ta_movingAverages ta;
          st3 = scoreIndicator (ma_signal maSignal) (ma_strength maSignal) 3.5 3.5
                  ''Moving Average Bullish Signal'' ''Moving Average Bearish Signal'' st2;
          macdSignal = ta_macd ta;
          st4 = scoreIndicator (macd_signal macdSignal) (macd_strength macdSignal)
                  scores_macdBullish scores_macdBearish
                  ''MACD Bullish Signal'' ''MACD Bearish Signal'' st3
      in scoreQuantitative (ta_quantitative ta) st4)"

text \<open>
  The decision of lines 1378-1424, as \<open>(action, confidence, profitTarget, riskLevel, color)\<close>.
  The BUY and the SELL branch choose the tier by the same bands. With a score that is NaN
  every test of these lines is false: the confidence is NaN, the action SELL and the tier
  the conservative one.
\<close>

definition profitTier :: "int nan_or \<Rightarrow> real \<times> real" where
  "profitTier confidence =
     (if nan_test (\<ge>) confidence (Number 85)
        then (profitTargets_aggressive, riskLevels_aggressive)
      else if nan_test (\<ge>) confidence (Number 75)
        then (profitTargets_moderate, riskLevels_moderate)
      else (profitTargets_conservative, riskLevels_conservative))"

definition decide ::
  "real nan_or \<Rightarrow> real nan_or \<Rightarrow> signal \<times> int nan_or \<times> real \<times> real \<times> string" where
  "decide buyScore sellScore =
     (let totalScore = nan_lift2 (+) buyScore sellScore;
          scoreDifference = map_nan_or abs (nan_lift2 (-) buyScore sellScore)
      in if totalScore = Number 0 \<or> nan_test (<) scoreDifference (Number 1.5) then
           (WAIT, Number 40, 0, 0, ''var(--text-muted)'')
         else
           let rawConfidence =
                 nan_lift2 (+) (Number 50)
                   (nan_lift2 (*) (nan_lift2 (/) scoreDifference totalScore) (Number 50));
               confidence = map_nan_or (\<lambda>raw. min 95 (js_round raw)) rawConfidence
           in if nan_test (>) buyScore sellScore then
                (BUY, confidence, fst (profitTier confidence), snd (profitTier confidence),
                 ''var(--success-green)'')
              else
                (SELL, confidence, fst (profitTier confidence), snd (profitTier confidence),
                 ''var(--danger-red)''))"

text \<open>The threshold of lines 1426-1436; it also appends a neutral entry to the summary.\<close>

definition applyThreshold ::
  "signal \<times> int nan_or \<times> real \<times> real \<times> string \<Rightarrow> factor list
     \<Rightarrow> (signal \<times> int nan_or \<times> real \<times> real \<times> string) \<times> factor list" where
  "applyThreshold d summary =
     (case d of (action, confidence, profitTarget, riskLevel, color) \<Rightarrow>
        if nan_test (<) confidence (Number 65) then
          ((WAIT, confidence, 0, 0, color),
           summary @ [\<lparr>f_type = neutral,
                       f_text = utf16 ''Confidence below 65% threshold - Recommendation: WAIT'',
                       f_impact = Number 0\<rparr>])
        else (d, summary))"

text \<open>The adjustments to the profit target (lines 1442-1483), in the source's order.\<close>

definition adjustQuant :: "quantAnalysis option \<Rightarrow> real \<Rightarrow> real" where
  "adjustQuant quantData profitTarget =
     (case quantData of
        None \<Rightarrow> profitTarget
      | Some q \<Rightarrow>
          let ind = q_indicators q;
              p1 = (if js_gt (qi_volatility ind) 0.04 then profitTarget * 0.6
                    else if js_gt (qi_volatility ind) 0.03 then profitTarget * 0.75
                    else if js_gt (qi_volatility ind) 0.02 then profitTarget * 0.9
                    else profitTarget);
              p2 = (if \<bar>qi_trendStrength ind\<bar> > 0.6 then p1 * 1.25
                    else if \<bar>qi_trendStrength ind\<bar> > 0.4 then p1 * 1.15
                    else p1)
          in if js_gt (qi_rsi ind) 85 \<or> js_lt (qi_rsi ind) 15 then p2 * 0.85 else p2)"

definition adjustMA :: "signal \<Rightarrow> maAnalysis \<Rightarrow> real \<Rightarrow> real" where
  "adjustMA action maData profitTarget =
     (case ma_indicators maData of
        None \<Rightarrow> profitTarget
      | Some ind \<Rightarrow>
          if truthy (mi_sma9 ind) \<and> truthy (mi_sma20 ind) \<and> truthy (mi_sma50 ind) then
            let sma9 = the (mi_sma9 ind); sma20 = the (mi_sma20 ind); sma50 = the (mi_sma50 ind)
            in if action = BUY \<and> sma9 > sma20 \<and> sma20 > sma50 then profitTarget * 1.1
               else if action = SELL \<and> sma9 < sma20 \<and> sma20 < sma50 then profitTarget * 1.1
               else if (action = BUY \<and> (sma9 < sma20 \<or> sma20 < sma50)) \<or>
                       (action = SELL \<and> (sma9 > sma20 \<or> sma20 > sma50))
                    then profitTarget * 0.85
               else profitTarget
          else profitTarget)"

definition realProfitPercentage :: "signal \<Rightarrow> real \<Rightarrow> technicalAnalysis \<Rightarrow> real" where
  "realProfitPercentage action profitTarget ta =
     (if action \<noteq> WAIT \<and> profitTarget > 0 then
        let p = adjustMA action (ta_movingAverages ta)
                  (adjustQuant (ta_quantitative ta) profitTarget)
        in real_of_int (js_round (p * 100 * 10)) / 10
      else 0)"

text \<open>
  \<open>summary.sort((a, b) => b.impact - a.impact).slice(0, 10)\<close>: a stable sort by
  descending impact, then the first ten. With an impact that is NaN the comparison
  function is not a consistent one, and the order that \<open>sort\<close> leaves is
  implementation-defined: the summary is then \<open>None\<close>.
\<close>

definition impactOf :: "factor \<Rightarrow> real" where
  "impactOf f = (case f_impact f of Number x \<Rightarrow> x | NotANumber \<Rightarrow> 0)"

definition sortSummary :: "factor list \<Rightarrow> factor list option" where
  "sortSummary summary =
     (if list_all (\<lambda>f. f_impact f \<noteq> NotANumber) summary
      then Some (take 10 (sort_key (\<lambda>f. - impactOf f) summary))
      else None)"

definition generateProfessionalRecommendation ::
  "candleAnalysis \<Rightarrow> technicalAnalysis \<Rightarrow> recommendation" where
  "generateProfessionalRecommendation candleAnalysis ta =
     (case accumulateScores candleAnalysis ta of (buyScore, sellScore, summary0) \<Rightarrow>
        case applyThreshold (decide buyScore sellScore) summary0 of
          ((action, confidence, profitTarget, riskLevel, color), summary) \<Rightarrow>
            \<lparr>r_action = action,
             r_confidence = confidence,
             r_profitTarget = realProfitPercentage action profitTarget ta,
             r_riskLevel = real_of_int (js_round (riskLevel * 100 * 10)) / 10,
             r_color = color,
             r_summary = sortSummary summary,
             r_scores_buy = buyScore,
             r_scores_sell = sellScore\<rparr>)"

section \<open>Example inputs\<close>

text \<open>
  The technical analysis of a series too short for every indicator: the objects the
  indicator functions return on their first line.
\<close>

definition neutral_technical :: technicalAnalysis where
  "neutral_technical =
     \<lparr>ta_supportResistance =
        \<lparr>sr_supports = [], sr_resistances = [], sr_signal = HOLD, sr_strength = 0,
         sr_levels = None\<rparr>,
      ta_donchianChannels =
        \<lparr>dc_signal = HOLD, dc_strength = 0, dc_position = Some ''middle'',
         dc_allPeriods = None\<rparr>,
      ta_quantitative = None,
      ta_movingAverages = \<lparr>ma_signal = HOLD, ma_strength = 0, ma_indicators = None\<rparr>,
      ta_macd = \<lparr>macd_signal = HOLD, macd_strength = 0, macd_indicators = None\<rparr>,
      ta_combinedSignal = \<lparr>cs_signal = HOLD, cs_confidence = 0\<rparr>\<rparr>"

text \<open>A support signal of full strength: a buy score of 5.\<close>

definition support_buy :: technicalAnalysis where
  "support_buy =
     neutral_technical\<lparr>ta_supportResistance :=
       \<lparr>sr_supports = [], sr_resistances = [], sr_signal = BUY, sr_strength = 1,
        sr_levels = Some []\<rparr>\<rparr>"

text \<open>The same with a weak bearish MACD: a sell score of \<open>3.5 * 0.2 = 0.7\<close>.\<close>

definition support_buy_macd_sell :: technicalAnalysis where
  "support_buy_macd_sell =
     support_buy\<lparr>ta_macd :=
       \<lparr>macd_signal = SELL, macd_strength = 0.2, macd_indicators = None\<rparr>\<rparr>"

definition no_pattern :: pattern where
  "no_pattern =
     \<lparr>p_name = utf16 ''No Pattern'', p_signal = HOLD, p_strength = 0, p_description = []\<rparr>"

definition bearish_engulfing :: pattern where
  "bearish_engulfing =
     \<lparr>p_name = utf16 ''Bearish Engulfing'', p_signal = SELL, p_strength = 0.95,
      p_description = utf16 ''Strong Bearish Reversal - Sellers overpower buyers''\<rparr>"

definition gap_down :: pattern where
  "gap_down =
     \<lparr>p_name = utf16 ''Gap Down'', p_signal = SELL, p_strength = 0.7,
      p_description = utf16 ''Bearish Signal - Strong selling interest''\<rparr>"



definition no_patterns :: candleAnalysis where
  "no_patterns = \<lparr>ca_candles = [], ca_patterns = [], ca_mainPattern = no_pattern\<rparr>"

text \<open>Two bearish patterns: a sell score of \<open>2 * 0.95 + 2 * 0.7 = 3.3\<close>.\<close>

definition two_sells :: candleAnalysis where
  "two_sells =
     \<lparr>ca_candles = [], ca_patterns = [bearish_engulfing, gap_down],
      ca_mainPattern = bearish_engulfing\<rparr>"

text \<open>
  A candle measured at the given rows, with the derived fields of the extraction. Rows
  grow downwards: \<open>high \<le> bodyHigh \<le> bodyLow \<le> low\<close>.
\<close>

definition candleOf :: "bool \<Rightarrow> real \<Rightarrow> real \<Rightarrow> real \<Rightarrow> real \<Rightarrow> candle" where
  "candleOf isGreen high bodyHigh bodyLow low =
     deriveCandle \<lparr>x_end = 2, x_start = 0\<rparr> isGreen high low bodyHigh bodyLow"

text \<open>Three red candles whose closes (rows 10, 20, 30) grow.\<close>

definition rising_closes :: "candle list" where
  "rising_closes =
     [candleOf False 0 5 10 15, candleOf False 10 15 20 25, candleOf False 20 25 30 35]"

text \<open>
  A candle near the top of the chart (close at row 5) and one near the bottom (close at
  row 55). With both in the window the Donchian channel has \<open>highest = 50\<close> and
  \<open>lowest = 10\<close>, the upper band is 49.4 and the lower band 10.6.
\<close>

definition top_candle :: candle where
  "top_candle = candleOf False 0 2 5 10"

definition bottom_candle :: candle where
  "bottom_candle = candleOf False 50 52 55 60"

text \<open>The last three closes all beyond the upper band.\<close>

definition sustained_upper :: "candle list" where
  "sustained_upper = replicate 17 top_candle @ [bottom_candle, bottom_candle, bottom_candle]"

text \<open>One close beyond the upper band, then two closes back at row 5.\<close>

definition spike_upper :: "candle list" where
  "spike_upper = replicate 17 top_candle @ [bottom_candle, top_candle, top_candle]"

text \<open>The last three closes all beyond the lower band.\<close>

definition sustained_lower :: "candle list" where
  "sustained_lower = replicate 3 bottom_candle @ replicate 17 top_candle"

text \<open>
  Two candles that pass the engulfing test of lines 410-411. They have the rows of
  extracted candles, with open and close exchanged so that the bearish candle opens at the
  larger number (20, closing at 10) and the bullish one closes at the larger number (from
  8 to 22).
\<close>

definition engulfed_red :: candle where
  "engulfed_red = (candleOf False 8 10 20 22)\<lparr>c_open := 20, c_close := 10\<rparr>"

definition engulfing_green :: candle where
  "engulfing_green = (candleOf True 6 8 22 24)\<lparr>c_open := 8, c_close := 22\<rparr>"

text \<open>The pair after a third candle, and an analysis holding what the detector finds there.\<close>

definition engulfing_series :: "candle list" where
  "engulfing_series = [top_candle, engulfed_red, engulfing_green]"


text \<open>
  An image of four columns and three rows. Column 0 is black; columns 1 to 3 hold one
  candle, a red pixel above two green ones.
\<close>

definition rgba :: "nat \<times> nat \<times> nat \<Rightarrow> nat list" where
  "rgba p = (case p of (r, g, b) \<Rightarrow> [r, g, b, 255])"

definition px_black :: "nat \<times> nat \<times> nat" where "px_black = (0, 0, 0)"
definition px_green :: "nat \<times> nat \<times> nat" where "px_green = (0, 200, 0)"
definition px_red :: "nat \<times> nat \<times> nat" where "px_red = (200, 0, 0)"

definition example_image :: imageData where
  "example_image =
     \<lparr>img_data = concat (map rgba
        [px_black, px_red, px_red, px_red,
         px_black, px_green, px_green, px_green,
         px_black, px_green, px_green, px_green]),
      img_width = 4, img_height = 3\<rparr>"

text \<open>What the extraction makes of it: one green candle over rows 0 to 2, body from row 1.\<close>

definition example_candle :: candle where
  "example_candle = deriveCandle \<lparr>x_end = 3, x_start = 1\<rparr> True 0 2 1 2"

definition example_analysis :: candleAnalysis where
  "example_analysis =
     \<lparr>ca_candles = [example_candle], ca_patterns = [],
      ca_mainPattern =
        \<lparr>p_name = utf16 ''No Pattern'', p_signal = HOLD, p_strength = 0,
         p_description = []\<rparr>\<rparr>"

chapter \<open>Properties\<close>

section \<open>The recommendation generator\<close>

















text \<open>
  Claim C2, as stated: with buy score 5 and sell score 4 the generator computes the
  confidence 56 and the threshold forces WAIT. On such an input the returned confidence is
  not 56: the difference 1 is below the minimum separation 1.5, which is tested first.
\<close>

theorem scores_5_4_confidence_counterexample:
  "r_scores_buy (generateProfessionalRecommendation two_sells support_buy_macd_sell)
     = Number 5 \<and>
   r_scores_sell (generateProfessionalRecommendation two_sells support_buy_macd_sell)
     = Number 4 \<and>
   r_confidence (generateProfessionalRecommendation two_sells support_buy_macd_sell)
     \<noteq> Number 56"
  by code_simp

text \<open>
  Claim C2, amended: with buy score 5 and sell score 4 the action is WAIT and the
  confidence is the fixed 40 of the minimum-separation branch.
\<close>

theorem scores_5_4_wait_40:
  "r_scores_buy (generateProfessionalRecommendation ca ta) = Number 5 \<Longrightarrow>
   r_scores_sell (generateProfessionalRecommendation ca ta) = Number 4 \<Longrightarrow>
   r_action (generateProfessionalRecommendation ca ta) = WAIT \<and>
   r_confidence (generateProfessionalRecommendation ca ta) = Number 40"
  by (auto simp: generateProfessionalRecommendation_def applyThreshold_def decide_def
           split: prod.splits if_splits)

theorem scores_5_4_wait_40_witness:
  "r_scores_buy (generateProfessionalRecommendation two_sells support_buy_macd_sell)
     = Number 5 \<and>
   r_scores_sell (generateProfessionalRecommendation two_sells support_buy_macd_sell)
     = Number 4 \<and>
   r_action (generateProfessionalRecommendation two_sells support_buy_macd_sell) = WAIT \<and>
   r_confidence (generateProfessionalRecommendation two_sells support_buy_macd_sell)
     = Number 40"
proof -
  have b: "r_scores_buy (generateProfessionalRecommendation two_sells support_buy_macd_sell)
             = Number 5"
    by code_simp
  have s: "r_scores_sell (generateProfessionalRecommendation two_sells support_buy_macd_sell)
             = Number 4"
    by code_simp
  show ?thesis
    using scores_5_4_wait_40 [OF b s] b s by simp
qed

text \<open>A WAIT that \<open>decide\<close> itself returns has confidence 40, hence stays below 65.\<close>

lemma decide_wait:
  "decide buyScore sellScore = (action, confidence, profitTarget, riskLevel, color) \<Longrightarrow>
   nan_test (<) confidence (Number 65) \<or> action \<noteq> WAIT"
  by (auto simp: decide_def Let_def split: if_splits)

text \<open>
  Claim C10: whenever the returned action is WAIT (no score at all, too small a separation,
  or a confidence below 65), the returned profit target and risk level are both 0.
\<close>

theorem wait_has_zero_profit_and_risk:
  "r_action (generateProfessionalRecommendation ca ta) = WAIT \<Longrightarrow>
   r_profitTarget (generateProfessionalRecommendation ca ta) = 0 \<and>
   r_riskLevel (generateProfessionalRecommendation ca ta) = 0"
  by (auto simp: generateProfessionalRecommendation_def applyThreshold_def
                 realProfitPercentage_def js_round_def
           split: prod.splits if_splits dest: decide_wait)

text \<open>One input for each of the three ways to WAIT.\<close>

theorem wait_has_zero_profit_and_risk_witness:
  "(r_action (generateProfessionalRecommendation no_patterns neutral_technical) = WAIT \<and>
    r_profitTarget (generateProfessionalRecommendation no_patterns neutral_technical) = 0 \<and>
    r_riskLevel (generateProfessionalRecommendation no_patterns neutral_technical) = 0) \<and>
   (r_action (generateProfessionalRecommendation two_sells support_buy_macd_sell) = WAIT \<and>
    r_profitTarget (generateProfessionalRecommendation two_sells support_buy_macd_sell) = 0 \<and>
    r_riskLevel (generateProfessionalRecommendation two_sells support_buy_macd_sell) = 0) \<and>
   (r_action (generateProfessionalRecommendation two_sells support_buy) = WAIT \<and>
    r_profitTarget (generateProfessionalRecommendation two_sells support_buy) = 0 \<and>
    r_riskLevel (generateProfessionalRecommendation two_sells support_buy) = 0)"
proof -
  have w1: "r_action (generateProfessionalRecommendation no_patterns neutral_technical) = WAIT"
    by code_simp
  have w2: "r_action (generateProfessionalRecommendation two_sells support_buy_macd_sell) = WAIT"
    by code_simp
  have w3: "r_action (generateProfessionalRecommendation two_sells support_buy) = WAIT"
    by code_simp
  show ?thesis
    using wait_has_zero_profit_and_risk [OF w1] wait_has_zero_profit_and_risk [OF w2]
      wait_has_zero_profit_and_risk [OF w3] w1 w2 w3
    by simp
qed

section \<open>The relative strength index\<close>

text \<open>
  Claim C8: \<open>calculateRSI\<close> returns exactly 50 on fewer candles than the period, and
  exactly 100 when, on more candles than the period, the average loss over the window is 0.
\<close>

theorem calculateRSI_50_and_100:
  "(length candles < period \<longrightarrow> calculateRSI candles period = Num 50) \<and>
   (period < length candles \<and> rsiAvgLoss candles period = Num 0 \<longrightarrow>
      calculateRSI candles period = Num 100)"
  by (auto simp: calculateRSI_def rsiAvgLoss_def rsiAvgGain_def js_div_def split: if_splits)

theorem calculateRSI_50_and_100_witness:
  "length rising_closes < 14 \<and> calculateRSI rising_closes 14 = Num 50 \<and>
   2 < length rising_closes \<and> rsiAvgLoss rising_closes 2 = Num 0 \<and>
   calculateRSI rising_closes 2 = Num 100"
proof -
  have short: "length rising_closes < 14" by code_simp
  have long: "2 < length rising_closes" by code_simp
  have loss: "rsiAvgLoss rising_closes 2 = Num 0" by code_simp
  show ?thesis
    using calculateRSI_50_and_100 [of rising_closes 14]
      calculateRSI_50_and_100 [of rising_closes 2] short long loss
    by simp
qed

section \<open>Short series\<close>

text \<open>
  Claim C6, as stated: every indicator module returns a neutral HOLD result of strength
  zero, not an absent value, on a series too short for it. The quantitative analysis of
  three candles is \<open>null\<close>.
\<close>

theorem quantitative_short_counterexample:
  "length rising_closes < 14 \<and> performQuantitativeAnalysis rising_closes = None"
  by (simp add: performQuantitativeAnalysis_def rising_closes_def)

text \<open>
  Claim C6, amended: on a short series the support and resistance, Donchian, moving
  average and MACD modules return HOLD with strength 0, and the quantitative analysis
  returns \<open>null\<close>, which the recommendation generator scores as no contribution.
\<close>

theorem short_series_neutral:
  "(length candles < 8 \<longrightarrow>
      sr_signal (analyzeSupportResistance candles imageHeight) = HOLD \<and>
      sr_strength (analyzeSupportResistance candles imageHeight) = 0) \<and>
   (length candles < 20 \<longrightarrow>
      dc_signal (analyzeDonchianChannels candles) = HOLD \<and>
      dc_strength (analyzeDonchianChannels candles) = 0) \<and>
   (length candles < 50 \<longrightarrow>
      ma_signal (analyzeMovingAverages candles) = HOLD \<and>
      ma_strength (analyzeMovingAverages candles) = 0) \<and>
   (length candles < 26 \<longrightarrow>
      macd_signal (analyzeMACD candles) = HOLD \<and>
      macd_strength (analyzeMACD candles) = 0) \<and>
   (length candles < 14 \<longrightarrow>
      performQuantitativeAnalysis candles = None \<and>
      scoreQuantitative (performQuantitativeAnalysis candles) st = st)"
  by (simp add: analyzeSupportResistance_def analyzeDonchianChannels_def
        analyzeMovingAverages_def analyzeMACD_def performQuantitativeAnalysis_def
        scoreQuantitative_def)

theorem short_series_neutral_witness:
  "length rising_closes < 8 \<and>
   sr_signal (analyzeSupportResistance rising_closes 100) = HOLD \<and>
   sr_strength (analyzeSupportResistance rising_closes 100) = 0 \<and>
   dc_signal (analyzeDonchianChannels rising_closes) = HOLD \<and>
   dc_strength (analyzeDonchianChannels rising_closes) = 0 \<and>
   ma_signal (analyzeMovingAverages rising_closes) = HOLD \<and>
   ma_strength (analyzeMovingAverages rising_closes) = 0 \<and>
   macd_signal (analyzeMACD rising_closes) = HOLD \<and>
   macd_strength (analyzeMACD rising_closes) = 0 \<and>
   performQuantitativeAnalysis rising_closes = None \<and>
   scoreQuantitative (performQuantitativeAnalysis rising_closes) (Number 0, Number 0, [])
     = (Number 0, Number 0, [])"
proof -
  have short:
    "length rising_closes < 8" "length rising_closes < 20" "length rising_closes < 50"
    "length rising_closes < 26" "length rising_closes < 14"
    by code_simp+
  show ?thesis
    using short_series_neutral [of rising_closes 100 "(Number 0, Number 0, [])"] short
    by blast
qed

section \<open>Donchian breakouts\<close>

lemma last3_length: "3 \<le> length xs \<Longrightarrow> length (js_slice_from (-3) xs) = 3"
  by (simp add: js_slice_from_def js_index_def)

lemma donchianForPeriod_buy:
  "dp_signal (donchianForPeriod candles p) = BUY \<Longrightarrow> 3 \<le> length candles \<Longrightarrow>
   \<forall>c\<in>set (js_slice_from (-3) candles). c_close c > upperBand (donchianForPeriod candles p)"
  by (auto simp: donchianForPeriod_def upperBand_def Let_def list_all_iff split: if_splits)

lemma donchianForPeriod_sell:
  "dp_signal (donchianForPeriod candles p) = SELL \<Longrightarrow> 3 \<le> length candles \<Longrightarrow>
   \<forall>c\<in>set (js_slice_from (-3) candles). c_close c < lowerBand (donchianForPeriod candles p)"
  by (auto simp: donchianForPeriod_def lowerBand_def Let_def list_all_iff split: if_splits)

lemma donchianForPeriod_hold:
  "3 \<le> length candles \<Longrightarrow>
   \<exists>c\<in>set (js_slice_from (-3) candles). \<not> c_close c > upperBand (donchianForPeriod candles p) \<Longrightarrow>
   \<exists>c\<in>set (js_slice_from (-3) candles). \<not> c_close c < lowerBand (donchianForPeriod candles p) \<Longrightarrow>
   dp_strength (donchianForPeriod candles p) = 0"
  by (auto simp: donchianForPeriod_def lowerBand_def upperBand_def Let_def list_all_iff
           split: if_splits)

text \<open>The reduction ends on its start value or on the signal of one of the results.\<close>

lemma fold_strongestSignal:
  "fold strongestSignal rs (s0, st0, p0) = (sig, str, pos) \<Longrightarrow>
   sig = s0 \<or> (\<exists>r\<in>set rs. dp_signal r = sig)"
  by (induction rs arbitrary: s0 st0 p0) (auto simp: strongestSignal_def split: if_splits)

lemma fold_strongestSignal_none:
  "\<forall>r\<in>set rs. dp_strength r \<le> st0 \<Longrightarrow> fold strongestSignal rs (s0, st0, p0) = (s0, st0, p0)"
  by (induction rs) (auto simp: strongestSignal_def)

lemma dc_signal_fold:
  "20 \<le> length candles \<Longrightarrow>
   dc_signal (analyzeDonchianChannels candles) =
     fst (fold strongestSignal (donchianResults candles) (HOLD, 0, None))"
  by (simp add: analyzeDonchianChannels_def Let_def split: prod.splits)

lemma dc_signal_short: "length candles < 20 \<Longrightarrow> dc_signal (analyzeDonchianChannels candles) = HOLD"
  by (simp add: analyzeDonchianChannels_def)

lemma dc_signal_from_result:
  assumes "dc_signal (analyzeDonchianChannels candles) = sig" "sig \<noteq> HOLD"
  shows "20 \<le> length candles \<and> (\<exists>r\<in>set (donchianResults candles). dp_signal r = sig)"
proof -
  have len: "20 \<le> length candles"
    using assms dc_signal_short [of candles] by (cases "length candles < 20") auto
  obtain s st p where f: "fold strongestSignal (donchianResults candles) (HOLD, 0, None) = (s, st, p)"
    by (cases "fold strongestSignal (donchianResults candles) (HOLD, 0, None)") auto
  with dc_signal_fold [OF len] assms have "s = sig" by simp
  with fold_strongestSignal [OF f] assms(2) len show ?thesis by auto
qed

lemma donchianResults_form:
  "r \<in> set (donchianResults candles) \<Longrightarrow>
   \<exists>p\<in>set donchian_periods. p \<le> length candles \<and> r = donchianForPeriod candles p"
  by (auto simp: donchianResults_def)

lemma donchianForPeriod_channel:
  "dp_period (donchianForPeriod candles p) = p \<and>
   dp_highest (donchianForPeriod candles p) =
     list_max (map c_high (js_slice_from (- int p) candles)) \<and>
   dp_lowest (donchianForPeriod candles p) =
     list_min (map c_low (js_slice_from (- int p) candles))"
  by (simp add: donchianForPeriod_def Let_def split: prod.splits)

text \<open>
  Claim C7: a BUY comes only with the last three closes all above the upper band of one of
  the channels, a SELL only with all three below the lower band of one, where the channel
  of a period spans the highest high and the lowest low of its window; when for every
  channel some close of the last three is not beyond either band, as after a single spike
  that has retraced, the signal is HOLD.
\<close>

theorem donchian_breakout_needs_three_closes:
  "(dc_signal (analyzeDonchianChannels candles) = BUY \<longrightarrow>
      (\<exists>r\<in>set (donchianResults candles).
          dp_period r \<in> set donchian_periods \<and>
          dp_highest r = list_max (map c_high (js_slice_from (- int (dp_period r)) candles)) \<and>
          dp_lowest r = list_min (map c_low (js_slice_from (- int (dp_period r)) candles)) \<and>
          length (js_slice_from (-3) candles) = 3 \<and>
          (\<forall>c\<in>set (js_slice_from (-3) candles). c_close c > upperBand r))) \<and>
   (dc_signal (analyzeDonchianChannels candles) = SELL \<longrightarrow>
      (\<exists>r\<in>set (donchianResults candles).
          dp_period r \<in> set donchian_periods \<and>
          dp_highest r = list_max (map c_high (js_slice_from (- int (dp_period r)) candles)) \<and>
          dp_lowest r = list_min (map c_low (js_slice_from (- int (dp_period r)) candles)) \<and>
          length (js_slice_from (-3) candles) = 3 \<and>
          (\<forall>c\<in>set (js_slice_from (-3) candles). c_close c < lowerBand r))) \<and>
   ((\<forall>r\<in>set (donchianResults candles).
        (\<exists>c\<in>set (js_slice_from (-3) candles). \<not> c_close c > upperBand r) \<and>
        (\<exists>c\<in>set (js_slice_from (-3) candles). \<not> c_close c < lowerBand r)) \<longrightarrow>
      dc_signal (analyzeDonchianChannels candles) = HOLD)"
proof (intro conjI impI)
  assume b: "dc_signal (analyzeDonchianChannels candles) = BUY"
  from dc_signal_from_result [OF b] obtain r where len: "20 \<le> length candles"
    and r: "r \<in> set (donchianResults candles)" "dp_signal r = BUY" by auto
  from donchianResults_form [OF r(1)] obtain p
    where p: "p \<in> set donchian_periods" "r = donchianForPeriod candles p" by auto
  from len have l3: "3 \<le> length candles" by simp
  have "\<forall>c\<in>set (js_slice_from (-3) candles). c_close c > upperBand r"
    using donchianForPeriod_buy [of candles p] r(2) l3 unfolding p(2) by blast
  with r(1) p(1) last3_length [OF l3] donchianForPeriod_channel [of candles p]
  show "\<exists>r\<in>set (donchianResults candles).
          dp_period r \<in> set donchian_periods \<and>
          dp_highest r = list_max (map c_high (js_slice_from (- int (dp_period r)) candles)) \<and>
          dp_lowest r = list_min (map c_low (js_slice_from (- int (dp_period r)) candles)) \<and>
          length (js_slice_from (-3) candles) = 3 \<and>
          (\<forall>c\<in>set (js_slice_from (-3) candles). c_close c > upperBand r)"
    unfolding p(2) by (intro bexI [of _ "donchianForPeriod candles p"]) simp_all
next
  assume b: "dc_signal (analyzeDonchianChannels candles) = SELL"
  from dc_signal_from_result [OF b] obtain r where len: "20 \<le> length candles"
    and r: "r \<in> set (donchianResults candles)" "dp_signal r = SELL" by auto
  from donchianResults_form [OF r(1)] obtain p
    where p: "p \<in> set donchian_periods" "r = donchianForPeriod candles p" by auto
  from len have l3: "3 \<le> length candles" by simp
  have "\<forall>c\<in>set (js_slice_from (-3) candles). c_close c < lowerBand r"
    using donchianForPeriod_sell [of candles p] r(2) l3 unfolding p(2) by blast
  with r(1) p(1) last3_length [OF l3] donchianForPeriod_channel [of candles p]
  show "\<exists>r\<in>set (donchianResults candles).
          dp_period r \<in> set donchian_periods \<and>
          dp_highest r = list_max (map c_high (js_slice_from (- int (dp_period r)) candles)) \<and>
          dp_lowest r = list_min (map c_low (js_slice_from (- int (dp_period r)) candles)) \<and>
          length (js_slice_from (-3) candles) = 3 \<and>
          (\<forall>c\<in>set (js_slice_from (-3) candles). c_close c < lowerBand r)"
    unfolding p(2) by (intro bexI [of _ "donchianForPeriod candles p"]) simp_all
next
  assume h: "\<forall>r\<in>set (donchianResults candles).
        (\<exists>c\<in>set (js_slice_from (-3) candles). \<not> c_close c > upperBand r) \<and>
        (\<exists>c\<in>set (js_slice_from (-3) candles). \<not> c_close c < lowerBand r)"
  show "dc_signal (analyzeDonchianChannels candles) = HOLD"
  proof (cases "length candles < 20")
    case True
    then show ?thesis by (rule dc_signal_short)
  next
    case False
    then have len: "20 \<le> length candles" and l3: "3 \<le> length candles" by simp_all
    have "\<forall>r\<in>set (donchianResults candles). dp_strength r \<le> 0"
    proof
      fix r assume r: "r \<in> set (donchianResults candles)"
      from donchianResults_form [OF r] obtain p where p: "r = donchianForPeriod candles p"
        by auto
      from h r have "\<exists>c\<in>set (js_slice_from (-3) candles). \<not> c_close c > upperBand r"
        "\<exists>c\<in>set (js_slice_from (-3) candles). \<not> c_close c < lowerBand r" by blast+
      then have "dp_strength r = 0" unfolding p using donchianForPeriod_hold [OF l3] by blast
      then show "dp_strength r \<le> 0" by simp
    qed
    from fold_strongestSignal_none [OF this] dc_signal_fold [OF len] show ?thesis by simp
  qed
qed

text \<open>
  Three closes beyond the upper band give BUY, three beyond the lower band SELL, and a
  close beyond the upper band followed by two closes back inside gives HOLD.
\<close>

theorem donchian_breakout_needs_three_closes_witness:
  "(dc_signal (analyzeDonchianChannels sustained_upper) = BUY \<and>
    (\<exists>r\<in>set (donchianResults sustained_upper).
        length (js_slice_from (-3) sustained_upper) = 3 \<and>
        (\<forall>c\<in>set (js_slice_from (-3) sustained_upper). c_close c > upperBand r))) \<and>
   (dc_signal (analyzeDonchianChannels sustained_lower) = SELL \<and>
    (\<exists>r\<in>set (donchianResults sustained_lower).
        length (js_slice_from (-3) sustained_lower) = 3 \<and>
        (\<forall>c\<in>set (js_slice_from (-3) sustained_lower). c_close c < lowerBand r))) \<and>
   (map c_close (js_slice_from (-3) spike_upper) = [55, 5, 5] \<and>
    map upperBand (donchianResults spike_upper) = [49.4] \<and>
    map lowerBand (donchianResults spike_upper) = [10.6] \<and>
    dc_signal (analyzeDonchianChannels spike_upper) = HOLD)"
proof -
  have buy: "dc_signal (analyzeDonchianChannels sustained_upper) = BUY" by code_simp
  have sell: "dc_signal (analyzeDonchianChannels sustained_lower) = SELL" by code_simp
  have closes: "map c_close (js_slice_from (-3) spike_upper) = [55, 5, 5]" by code_simp
  have upper: "map upperBand (donchianResults spike_upper) = [49.4]" by code_simp
  have lower: "map lowerBand (donchianResults spike_upper) = [10.6]" by code_simp
  have spike: "\<forall>r\<in>set (donchianResults spike_upper).
        (\<exists>c\<in>set (js_slice_from (-3) spike_upper). \<not> c_close c > upperBand r) \<and>
        (\<exists>c\<in>set (js_slice_from (-3) spike_upper). \<not> c_close c < lowerBand r)"
    by code_simp
  have up: "\<exists>r\<in>set (donchianResults sustained_upper).
        length (js_slice_from (-3) sustained_upper) = 3 \<and>
        (\<forall>c\<in>set (js_slice_from (-3) sustained_upper). c_close c > upperBand r)"
    using donchian_breakout_needs_three_closes [of sustained_upper] buy by blast
  have low: "\<exists>r\<in>set (donchianResults sustained_lower).
        length (js_slice_from (-3) sustained_lower) = 3 \<and>
        (\<forall>c\<in>set (js_slice_from (-3) sustained_lower). c_close c < lowerBand r)"
    using donchian_breakout_needs_three_closes [of sustained_lower] sell by blast
  have hold: "dc_signal (analyzeDonchianChannels spike_upper) = HOLD"
    using donchian_breakout_needs_three_closes [of spike_upper] spike by blast
  from buy sell closes upper lower up low hold show ?thesis by blast
qed

section \<open>The engulfing pattern\<close>

text \<open>
  Claim C5, as stated: a bullish latest candle that engulfs a bearish previous one puts
  'Bullish Engulfing' with signal BUY in the output, the two candles being enough. On
  exactly these two candles the detector returns nothing.
\<close>

theorem bullish_engulfing_two_candles_counterexample:
  "length [engulfed_red, engulfing_green] = 2 \<and>
   c_isGreen engulfing_green \<and> c_isRed engulfed_red \<and>
   c_close engulfing_green > c_open engulfed_red \<and>
   c_open engulfing_green < c_close engulfed_red \<and>
   c_bodyHeight engulfing_green > c_bodyHeight engulfed_red \<and>
   detectAllCandlestickPatterns [engulfed_red, engulfing_green] = []"
  by code_simp

lemma twoCandlePatterns_detected:
  "3 \<le> length candles \<Longrightarrow>
   set (twoCandlePatterns (candles ! (length candles - 1)) (candles ! (length candles - 2)))
     \<subseteq> set (detectAllCandlestickPatterns candles)"
  by (auto simp: detectAllCandlestickPatterns_def Let_def)

lemma bullish_engulfing_pushed:
  "c_isGreen c0 \<Longrightarrow> c_isRed c1 \<Longrightarrow> c_close c0 > c_open c1 \<Longrightarrow> c_open c0 < c_close c1 \<Longrightarrow>
   c_bodyHeight c0 > c_bodyHeight c1 \<Longrightarrow>
   \<lparr>p_name = utf16 ''Bullish Engulfing'', p_signal = BUY, p_strength = 0.95,
    p_description = utf16 ''Strong Bullish Reversal - Buyers overpower sellers''\<rparr>
     \<in> set (twoCandlePatterns c0 c1)"
  by (simp add: twoCandlePatterns_def pushIf_def)

lemma bullish_engulfing_from_three:
  assumes "3 \<le> length candles"
    and "c_isGreen (candles ! (length candles - 1))"
    and "c_isRed (candles ! (length candles - 2))"
    and "c_close (candles ! (length candles - 1)) > c_open (candles ! (length candles - 2))"
    and "c_open (candles ! (length candles - 1)) < c_close (candles ! (length candles - 2))"
    and "c_bodyHeight (candles ! (length candles - 1)) >
         c_bodyHeight (candles ! (length candles - 2))"
  shows "\<exists>p\<in>set (detectAllCandlestickPatterns candles).
           p_name p = utf16 ''Bullish Engulfing'' \<and> p_signal p = BUY"
proof -
  let ?p = "\<lparr>p_name = utf16 ''Bullish Engulfing'', p_signal = BUY, p_strength = 0.95,
             p_description = utf16 ''Strong Bullish Reversal - Buyers overpower sellers''\<rparr>"
  have "?p \<in> set (twoCandlePatterns (candles ! (length candles - 1))
                    (candles ! (length candles - 2)))"
    using assms(2-6) by (rule bullish_engulfing_pushed)
  then have "?p \<in> set (detectAllCandlestickPatterns candles)"
    using twoCandlePatterns_detected [OF assms(1)] by blast
  moreover have "p_name ?p = utf16 ''Bullish Engulfing'' \<and> p_signal ?p = BUY"
    by simp
  ultimately show ?thesis by blast
qed

text \<open>
  Claim C5, amended: in a series of at least three candles, a bullish latest candle that
  engulfs a bearish previous one puts 'Bullish Engulfing' with signal BUY in the output;
  on fewer than three candles the detector returns no pattern at all.
\<close>

theorem bullish_engulfing_detected:
  "(3 \<le> length candles \<and>
    c_isGreen (candles ! (length candles - 1)) \<and>
    c_isRed (candles ! (length candles - 2)) \<and>
    c_close (candles ! (length candles - 1)) > c_open (candles ! (length candles - 2)) \<and>
    c_open (candles ! (length candles - 1)) < c_close (candles ! (length candles - 2)) \<and>
    c_bodyHeight (candles ! (length candles - 1)) >
      c_bodyHeight (candles ! (length candles - 2)) \<longrightarrow>
    (\<exists>p\<in>set (detectAllCandlestickPatterns candles).
       p_name p = utf16 ''Bullish Engulfing'' \<and> p_signal p = BUY)) \<and>
   (length candles < 3 \<longrightarrow> detectAllCandlestickPatterns candles = [])"
proof (intro conjI impI)
  assume "3 \<le> length candles \<and>
    c_isGreen (candles ! (length candles - 1)) \<and>
    c_isRed (candles ! (length candles - 2)) \<and>
    c_close (candles ! (length candles - 1)) > c_open (candles ! (length candles - 2)) \<and>
    c_open (candles ! (length candles - 1)) < c_close (candles ! (length candles - 2)) \<and>
    c_bodyHeight (candles ! (length candles - 1)) >
      c_bodyHeight (candles ! (length candles - 2))"
  then show "\<exists>p\<in>set (detectAllCandlestickPatterns candles).
       p_name p = utf16 ''Bullish Engulfing'' \<and> p_signal p = BUY"
    using bullish_engulfing_from_three [of candles] by blast
next
  assume "length candles < 3"
  then show "detectAllCandlestickPatterns candles = []"
    by (simp add: detectAllCandlestickPatterns_def)
qed

text \<open>The engulfing pair after a third candle, and the pair alone.\<close>

theorem bullish_engulfing_detected_witness:
  "(3 \<le> length engulfing_series \<and>
    c_isGreen (engulfing_series ! (length engulfing_series - 1)) \<and>
    c_isRed (engulfing_series ! (length engulfing_series - 2)) \<and>
    c_close (engulfing_series ! (length engulfing_series - 1)) >
      c_open (engulfing_series ! (length engulfing_series - 2)) \<and>
    c_open (engulfing_series ! (length engulfing_series - 1)) <
      c_close (engulfing_series ! (length engulfing_series - 2)) \<and>
    c_bodyHeight (engulfing_series ! (length engulfing_series - 1)) >
      c_bodyHeight (engulfing_series ! (length engulfing_series - 2)) \<and>
    (\<exists>p\<in>set (detectAllCandlestickPatterns engulfing_series).
       p_name p = utf16 ''Bullish Engulfing'' \<and> p_signal p = BUY)) \<and>
   (length [engulfed_red, engulfing_green] < 3 \<and>
    detectAllCandlestickPatterns [engulfed_red, engulfing_green] = [])"
proof -
  have three: "3 \<le> length engulfing_series \<and>
    c_isGreen (engulfing_series ! (length engulfing_series - 1)) \<and>
    c_isRed (engulfing_series ! (length engulfing_series - 2)) \<and>
    c_close (engulfing_series ! (length engulfing_series - 1)) >
      c_open (engulfing_series ! (length engulfing_series - 2)) \<and>
    c_open (engulfing_series ! (length engulfing_series - 1)) <
      c_close (engulfing_series ! (length engulfing_series - 2)) \<and>
    c_bodyHeight (engulfing_series ! (length engulfing_series - 1)) >
      c_bodyHeight (engulfing_series ! (length engulfing_series - 2))"
    by code_simp
  have two: "length [engulfed_red, engulfing_green] < 3"
    by simp
  have found: "\<exists>p\<in>set (detectAllCandlestickPatterns engulfing_series).
       p_name p = utf16 ''Bullish Engulfing'' \<and> p_signal p = BUY"
    using bullish_engulfing_detected [of engulfing_series] three by blast
  have none: "detectAllCandlestickPatterns [engulfed_red, engulfing_green] = []"
    using bullish_engulfing_detected [of "[engulfed_red, engulfing_green]"] two by blast
  from three two found none show ?thesis by blast
qed

section \<open>Candle extraction\<close>

lemma chartRows_sorted: "sorted (chartRows img)"
  by (simp add: chartRows_def sorted_wrt_filter)

lemma chartRows_lt: "y \<in> set (chartRows img) \<Longrightarrow> y < img_height img"
  by (simp add: chartRows_def)

text \<open>
  The loop of \<open>findBounds\<close> over ascending rows below \<open>H\<close>: once a row has matched, the
  state holds the first and the last matching row.
\<close>

lemma bounds_fold:
  assumes "sorted ys" "\<forall>y\<in>set ys. y < H"
  shows "case fold (\<lambda>y (high, low).
                      if P y then ((if high = H then y else high), y) else (high, low))
               ys (H, 0) of
           (h, l) \<Rightarrow>
             if (\<exists>y\<in>set ys. P y) then h \<in> set ys \<and> l \<in> set ys \<and> P h \<and> P l \<and> h \<le> l
             else h = H \<and> l = 0"
  using assms
proof (induction ys rule: rev_induct)
  case Nil
  then show ?case by simp
next
  case (snoc y ys)
  let ?f = "\<lambda>y (high, low). if P y then ((if high = H then y else high), y) else (high, low)"
  from snoc.prems have s: "sorted ys" and le: "\<forall>x\<in>set ys. x \<le> y"
    and lt: "\<forall>x\<in>set ys. x < H"
    by (auto simp: sorted_append)
  obtain h l where f: "fold ?f ys (H, 0) = (h, l)"
    by (cases "fold ?f ys (H, 0)") auto
  from snoc.IH [OF s lt] f
  have ih: "if (\<exists>y\<in>set ys. P y) then h \<in> set ys \<and> l \<in> set ys \<and> P h \<and> P l \<and> h \<le> l
            else h = H \<and> l = 0"
    by simp
  show ?case
  proof (cases "P y")
    case False
    with ih f show ?thesis by (auto split: if_splits)
  next
    case True
    show ?thesis
    proof (cases "h = H")
      case True
      with \<open>P y\<close> f show ?thesis by simp
    next
      case False
      with ih have "h \<in> set ys \<and> P h" by (auto split: if_splits)
      with le \<open>P y\<close> f False show ?thesis by auto
    qed
  qed
qed

lemma findBounds_ok:
  assumes "isCandleColumn img x" "findBounds img x = (h, l)"
  shows "h \<le> l \<and> isCandlePixel img x h"
proof -
  have ex: "\<exists>y\<in>set (chartRows img). isCandlePixel img x y"
    using assms(1) by (simp add: isCandleColumn_def list_ex_iff)
  from bounds_fold [OF chartRows_sorted, of img "img_height img" "isCandlePixel img x"]
    chartRows_lt [of _ img]
  have "case findBounds img x of
          (h, l) \<Rightarrow>
            if (\<exists>y\<in>set (chartRows img). isCandlePixel img x y)
            then h \<in> set (chartRows img) \<and> l \<in> set (chartRows img) \<and>
                 isCandlePixel img x h \<and> isCandlePixel img x l \<and> h \<le> l
            else h = img_height img \<and> l = 0"
    unfolding findBounds_def by simp
  with ex assms(2) show ?thesis by simp
qed

text \<open>The loop of \<open>findBody\<close>, in the same way.\<close>

lemma body_fold:
  assumes "sorted ys"
  shows "case fold (\<lambda>y (bodyHigh, bodyLow, inBody).
                      let m = M y
                      in if m then ((if \<not> inBody then y else bodyHigh), y, True)
                         else (bodyHigh, bodyLow, inBody))
               ys (H, 0, False) of
           (bh, bl, ib) \<Rightarrow>
             if (\<exists>y\<in>set ys. M y) then ib \<and> bh \<in> set ys \<and> bl \<in> set ys \<and> bh \<le> bl
             else bh = H \<and> bl = 0 \<and> \<not> ib"
  using assms
proof (induction ys rule: rev_induct)
  case Nil
  then show ?case by simp
next
  case (snoc y ys)
  let ?f = "\<lambda>y (bodyHigh, bodyLow, inBody).
              let m = M y
              in if m then ((if \<not> inBody then y else bodyHigh), y, True)
                 else (bodyHigh, bodyLow, inBody)"
  from snoc.prems have s: "sorted ys" and le: "\<forall>x\<in>set ys. x \<le> y"
    by (auto simp: sorted_append)
  obtain bh bl ib where f: "fold ?f ys (H, 0, False) = (bh, bl, ib)"
    using prod_cases3 by blast
  from snoc.IH [OF s] f
  have ih: "if (\<exists>y\<in>set ys. M y) then ib \<and> bh \<in> set ys \<and> bl \<in> set ys \<and> bh \<le> bl
            else bh = H \<and> bl = 0 \<and> \<not> ib"
    by simp
  show ?case
  proof (cases "M y")
    case False
    with ih f show ?thesis by (auto split: if_splits)
  next
    case True
    show ?thesis
    proof (cases ib)
      case False
      with \<open>M y\<close> f show ?thesis by simp
    next
      case True
      with ih have "bh \<in> set ys" by (auto split: if_splits)
      with le \<open>M y\<close> f True show ?thesis by auto
    qed
  qed
qed

lemma findBody_ok:
  assumes "\<exists>y\<in>{high..low}. (isGreen \<and> colourAt greenCandle img x y) \<or>
                            (\<not> isGreen \<and> colourAt redCandle img x y)"
    and "findBody img x isGreen high low = (bh, bl, ib)"
  shows "high \<le> bh \<and> bh \<le> bl \<and> bl \<le> low"
proof -
  have s: "sorted [high ..< Suc low]" by (rule sorted_upt)
  from body_fold [OF s, of "\<lambda>y. (isGreen \<and> colourAt greenCandle img x y) \<or>
                                (\<not> isGreen \<and> colourAt redCandle img x y)" "img_height img"]
    assms
  show ?thesis unfolding findBody_def
    by (simp add: atLeastLessThanSuc_atLeastAtMost del: upt_Suc)
qed

text \<open>The middle column of a run lies in the run.\<close>

lemma midX_in_run:
  assumes "x_start r \<le> x_end r"
  shows "x_start r \<le> nat (js_round (real (x_start r + x_end r) / 2)) \<and>
         nat (js_round (real (x_start r + x_end r) / 2)) \<le> x_end r"
proof -
  have "real (x_start r + x_end r) / 2 + 1 / 2 = real (x_start r + x_end r + 1) / real 2"
    by (simp add: field_simps)
  then have "js_round (real (x_start r + x_end r) / 2) = int ((x_start r + x_end r + 1) div 2)"
    unfolding js_round_def by (simp only: floor_divide_of_nat_eq)
  moreover have "x_start r \<le> (x_start r + x_end r + 1) div 2"
    "(x_start r + x_end r + 1) div 2 \<le> x_end r"
    using assms by arith+
  ultimately show ?thesis by simp
qed

text \<open>
  The column scan keeps every finished run well formed, and the open run ends at the
  column scanned last.
\<close>

lemma scanColumns_ok:
  "\<forall>r\<in>set candles. run_ok img r \<Longrightarrow>
   (\<forall>c. cur = Some c \<longrightarrow> run_ok img c \<and> x_start c = Suc n) \<Longrightarrow>
   scanColumns img n candles cur = (candles', cur') \<Longrightarrow>
   (\<forall>r\<in>set candles'. run_ok img r) \<and> (\<forall>c. cur' = Some c \<longrightarrow> run_ok img c)"
proof (induction img n candles cur rule: scanColumns.induct)
  case (1 img candles currentCandle)
  then show ?case by simp
next
  case (2 img n candles currentCandle)
  show ?case
  proof (cases "isCandleColumn img (Suc n)")
    case True
    let ?c = "(case currentCandle of
                 None \<Rightarrow> \<lparr>x_end = Suc n, x_start = Suc n\<rparr>
               | Some c \<Rightarrow> c\<lparr>x_start := Suc n\<rparr>)"
    have ok: "run_ok img ?c \<and> x_start ?c = Suc n"
    proof (cases currentCandle)
      case None
      with True show ?thesis by (auto simp: run_ok_def dest: le_antisym)
    next
      case (Some c)
      with "2.prems"(2) have c: "run_ok img c" "x_start c = Suc (Suc n)" by simp_all
      have "isCandleColumn img x" if "Suc n \<le> x" "x \<le> x_end c" for x
      proof (cases "x = Suc n")
        case True
        with \<open>isCandleColumn img (Suc n)\<close> show ?thesis by simp
      next
        case False
        with that c show ?thesis by (simp add: run_ok_def)
      qed
      with c Some show ?thesis by (simp add: run_ok_def)
    qed
    from "2.prems"(3) True have "scanColumns img n candles (Some ?c) = (candles', cur')"
      by simp
    from "2.IH"(1) [OF True "2.prems"(1) _ this] ok show ?thesis by simp
  next
    case False
    show ?thesis
    proof (cases currentCandle)
      case None
      with "2.prems"(3) False have "scanColumns img n candles None = (candles', cur')"
        by simp
      from "2.IH"(2) [OF False None "2.prems"(1) _ this] show ?thesis by simp
    next
      case (Some c)
      with "2.prems"(2) have c: "run_ok img c" by simp
      show ?thesis
      proof (cases "x_end c - x_start c \<ge> candles_minWidth")
        case wide: True
        show ?thesis
        proof (cases "length (candles @ [c]) \<ge> candles_scanCount")
          case True
          with "2.prems"(3) False Some wide
          have "candles' = candles @ [c]" "cur' = Some c" by simp_all
          with "2.prems"(1) c show ?thesis by simp
        next
          case short: False
          with "2.prems"(3) \<open>\<not> isCandleColumn img (Suc n)\<close> Some wide
          have eq: "scanColumns img n (candles @ [c]) None = (candles', cur')" by simp
          have "\<forall>r\<in>set (candles @ [c]). run_ok img r" using "2.prems"(1) c by simp
          from "2.IH"(3) [OF False Some wide short this _ eq] show ?thesis by simp
        qed
      next
        case narrow: False
        with "2.prems"(3) \<open>\<not> isCandleColumn img (Suc n)\<close> Some
        have eq: "scanColumns img n candles None = (candles', cur')" by simp
        from "2.IH"(4) [OF \<open>\<not> isCandleColumn img (Suc n)\<close> Some narrow "2.prems"(1) _ eq]
        show ?thesis by simp
      qed
    qed
  qed
qed

lemma detectRuns_ok:
  assumes "r \<in> set (detectRuns img)"
  shows "run_ok img r"
proof -
  obtain candles cur where sc: "scanColumns img (img_width img - 1) [] None = (candles, cur)"
    by (cases "scanColumns img (img_width img - 1) [] None") auto
  from scanColumns_ok [OF _ _ sc]
  have "(\<forall>r\<in>set candles. run_ok img r) \<and> (\<forall>c. cur = Some c \<longrightarrow> run_ok img c)"
    by simp
  with assms sc show ?thesis
    by (auto simp: detectRuns_def split: option.splits if_splits)
qed

lemma count_pos: "0 < length (filter P xs) \<Longrightarrow> \<exists>x\<in>set xs. P x"
  by (induction xs) (auto split: if_splits)

lemma count_mem: "x \<in> set xs \<Longrightarrow> P x \<Longrightarrow> 0 < length (filter P xs)"
  by (induction xs) auto

text \<open>
  The column between its first and last candle pixel holds a pixel of the colour that the
  majority vote assigns: the first pixel is green or red, and red wins a tie.
\<close>

lemma own_colour_exists:
  assumes "h \<le> l" "isCandlePixel img x h"
  shows "\<exists>y\<in>{h..l}.
     (length (filter (colourAt greenCandle img x) [h ..< Suc l]) >
        length (filter (colourAt redCandle img x) [h ..< Suc l]) \<and>
      colourAt greenCandle img x y) \<or>
     (\<not> length (filter (colourAt greenCandle img x) [h ..< Suc l]) >
          length (filter (colourAt redCandle img x) [h ..< Suc l]) \<and>
      colourAt redCandle img x y)"
proof -
  let ?rows = "[h ..< Suc l]"
  let ?g = "length (filter (colourAt greenCandle img x) ?rows)"
  let ?r = "length (filter (colourAt redCandle img x) ?rows)"
  have rows: "set ?rows = {h..l}"
    by (simp only: set_upt atLeastLessThanSuc_atLeastAtMost)
  have hin: "h \<in> set ?rows" using assms(1) by (simp only: rows) simp
  show ?thesis
  proof (cases "?g > ?r")
    case True
    then have "0 < ?g" by linarith
    from count_pos [OF this] rows True show ?thesis by blast
  next
    case False
    have "0 < ?r"
    proof (cases "colourAt redCandle img x h")
      case True
      from count_mem [OF hin, of "colourAt redCandle img x", OF True] show ?thesis .
    next
      case notred: False
      with assms(2) have "colourAt greenCandle img x h" by (simp add: isCandlePixel_def)
      from count_mem [OF hin, of "colourAt greenCandle img x", OF this] False
      show ?thesis by linarith
    qed
    from count_pos [OF this] rows False show ?thesis by blast
  qed
qed

lemma deriveCandle_ratios:
  assumes "high \<le> bh" "bh \<le> bl" "bl \<le> low"
  shows "0 \<le> c_bodyRatio (deriveCandle r g high low bh bl) \<and>
         c_bodyRatio (deriveCandle r g high low bh bl) \<le> 1 \<and>
         0 \<le> c_upperWickRatio (deriveCandle r g high low bh bl) \<and>
         c_upperWickRatio (deriveCandle r g high low bh bl) \<le> 1 \<and>
         0 \<le> c_lowerWickRatio (deriveCandle r g high low bh bl) \<and>
         c_lowerWickRatio (deriveCandle r g high low bh bl) \<le> 1"
  using assms by (auto simp: deriveCandle_def Let_def divide_le_eq_1 max_def)

lemma deriveCandle_denominators:
  "1 \<le> c_totalHeight (deriveCandle r g high low bh bl) \<and>
   c_totalHeight (deriveCandle r g high low bh bl) =
     max 1 (c_low (deriveCandle r g high low bh bl) - c_high (deriveCandle r g high low bh bl)) \<and>
   c_bodyRatio (deriveCandle r g high low bh bl) =
     c_bodyHeight (deriveCandle r g high low bh bl) /
       c_totalHeight (deriveCandle r g high low bh bl) \<and>
   c_upperWickRatio (deriveCandle r g high low bh bl) =
     c_upperWick (deriveCandle r g high low bh bl) /
       max 1 (c_totalHeight (deriveCandle r g high low bh bl)) \<and>
   c_lowerWickRatio (deriveCandle r g high low bh bl) =
     c_lowerWick (deriveCandle r g high low bh bl) /
       max 1 (c_totalHeight (deriveCandle r g high low bh bl))"
  by (simp add: deriveCandle_def Let_def)

text \<open>A well-formed run is measured at rows in the order high, body top, body bottom, low.\<close>

lemma processCandle_shape:
  assumes "run_ok img r"
  shows "\<exists>g high low bh bl.
           processCandle img r = deriveCandle r g (real high) (real low) (real bh) (real bl) \<and>
           high \<le> bh \<and> bh \<le> bl \<and> bl \<le> low"
proof -
  let ?m = "nat (js_round (real (x_start r + x_end r) / 2))"
  from assms midX_in_run [of r] have col: "isCandleColumn img ?m"
    by (simp add: run_ok_def)
  obtain h l where b: "findBounds img ?m = (h, l)"
    by (cases "findBounds img ?m") auto
  from findBounds_ok [OF col b] have hl: "h \<le> l" "isCandlePixel img ?m h"
    by simp_all
  let ?g = "length (filter (colourAt greenCandle img ?m) [h ..< Suc l]) >
            length (filter (colourAt redCandle img ?m) [h ..< Suc l])"
  obtain bh bl ib where f: "findBody img ?m ?g h l = (bh, bl, ib)"
    using prod_cases3 by blast
  from findBody_ok [OF own_colour_exists [OF hl] f]
  have "h \<le> bh \<and> bh \<le> bl \<and> bl \<le> l" .
  moreover have "processCandle img r = deriveCandle r ?g (real h) (real l) (real bh) (real bl)"
    using b f by (simp add: processCandle_def Let_def del: upt_Suc)
  ultimately show ?thesis by blast
qed

lemma extracted_candle:
  assumes "analyzeProfessionalCandlesticks img = Inr ca" "c \<in> set (ca_candles ca)"
  shows "\<exists>r\<in>set (detectRuns img). c = processCandle img r"
  using assms
  by (auto simp: analyzeProfessionalCandlesticks_def Let_def split: if_splits)

text \<open>The extraction run on the example image.\<close>

lemma example_image_extracted:
  "analyzeProfessionalCandlesticks example_image = Inr example_analysis"
  by code_simp

text \<open>
  Claim C3: every candle that the extraction returns has its body ratio and both wick
  ratios in the interval from 0 to 1, and each ratio is a length divided by a denominator
  \<open>max(1, low - high)\<close> of at least 1.
\<close>

theorem extracted_ratios_in_unit_interval:
  assumes "analyzeProfessionalCandlesticks img = Inr ca" "c \<in> set (ca_candles ca)"
  shows "0 \<le> c_bodyRatio c \<and> c_bodyRatio c \<le> 1 \<and>
         0 \<le> c_upperWickRatio c \<and> c_upperWickRatio c \<le> 1 \<and>
         0 \<le> c_lowerWickRatio c \<and> c_lowerWickRatio c \<le> 1 \<and>
         1 \<le> c_totalHeight c \<and> c_totalHeight c = max 1 (c_low c - c_high c) \<and>
         c_bodyRatio c = c_bodyHeight c / c_totalHeight c \<and>
         c_upperWickRatio c = c_upperWick c / max 1 (c_totalHeight c) \<and>
         c_lowerWickRatio c = c_lowerWick c / max 1 (c_totalHeight c)"
proof -
  from extracted_candle [OF assms] obtain r
    where r: "r \<in> set (detectRuns img)" "c = processCandle img r" by blast
  from processCandle_shape [OF detectRuns_ok [OF r(1)]] r(2)
  obtain g high low bh bl
    where c: "c = deriveCandle r g (real high) (real low) (real bh) (real bl)"
      and o: "high \<le> bh" "bh \<le> bl" "bl \<le> low" by auto
  from o have "real high \<le> real bh" "real bh \<le> real bl" "real bl \<le> real low"
    by simp_all
  from deriveCandle_ratios [OF this] deriveCandle_denominators
  show ?thesis unfolding c by blast
qed

text \<open>The candle of the example image: ratios 1/2, 1/2 and 0 over a height of 2.\<close>

theorem extracted_ratios_in_unit_interval_witness:
  "analyzeProfessionalCandlesticks example_image = Inr example_analysis \<and>
   example_candle \<in> set (ca_candles example_analysis) \<and>
   0 \<le> c_bodyRatio example_candle \<and> c_bodyRatio example_candle \<le> 1 \<and>
   0 \<le> c_upperWickRatio example_candle \<and> c_upperWickRatio example_candle \<le> 1 \<and>
   0 \<le> c_lowerWickRatio example_candle \<and> c_lowerWickRatio example_candle \<le> 1 \<and>
   1 \<le> c_totalHeight example_candle \<and>
   c_totalHeight example_candle = max 1 (c_low example_candle - c_high example_candle) \<and>
   c_bodyRatio example_candle = c_bodyHeight example_candle / c_totalHeight example_candle \<and>
   c_upperWickRatio example_candle =
     c_upperWick example_candle / max 1 (c_totalHeight example_candle) \<and>
   c_lowerWickRatio example_candle =
     c_lowerWick example_candle / max 1 (c_totalHeight example_candle)"
proof -
  note run = example_image_extracted
  have mem: "example_candle \<in> set (ca_candles example_analysis)"
    by (simp add: example_analysis_def)
  show ?thesis
    using extracted_ratios_in_unit_interval [OF run mem] run mem by blast
qed

text \<open>
  Claim C4: every candle that the extraction returns has \<open>high \<le> low\<close>: the row recorded as
  high is not below the row recorded as low.
\<close>

theorem extracted_high_le_low:
  assumes "analyzeProfessionalCandlesticks img = Inr ca" "c \<in> set (ca_candles ca)"
  shows "c_high c \<le> c_low c"
proof -
  from extracted_candle [OF assms] obtain r
    where r: "r \<in> set (detectRuns img)" "c = processCandle img r" by blast
  from processCandle_shape [OF detectRuns_ok [OF r(1)]] r(2) show ?thesis
    by (auto simp: deriveCandle_def Let_def)
qed

theorem extracted_high_le_low_witness:
  "analyzeProfessionalCandlesticks example_image = Inr example_analysis \<and>
   example_candle \<in> set (ca_candles example_analysis) \<and>
   c_high example_candle = 0 \<and> c_low example_candle = 2 \<and>
   c_high example_candle \<le> c_low example_candle"
proof -
  note run = example_image_extracted
  have mem: "example_candle \<in> set (ca_candles example_analysis)"
    by (simp add: example_analysis_def)
  have rows: "c_high example_candle = 0" "c_low example_candle = 2"
    by code_simp+
  show ?thesis
    using extracted_high_le_low [OF run mem] run mem rows by blast
qed

text \<open>
  A remark on the engulfing test of lines 410-411. Rows grow downwards, so on candles that
  the extraction returns a bullish candle whose close lies beyond the open of a bearish
  one, and its open before that one's close, has the smaller body: the three comparisons
  of the test never hold together there.
\<close>

lemma extracted_engulfing_body_smaller:
  assumes "analyzeProfessionalCandlesticks img = Inr ca"
    and "c0 \<in> set (ca_candles ca)" "c1 \<in> set (ca_candles ca)"
    and "c_isGreen c0" "c_isRed c1"
    and "c_close c0 > c_open c1" "c_open c0 < c_close c1"
  shows "c_bodyHeight c0 < c_bodyHeight c1"
proof -
  from extracted_candle [OF assms(1,2)] obtain r0
    where r0: "r0 \<in> set (detectRuns img)" "c0 = processCandle img r0" by blast
  from extracted_candle [OF assms(1,3)] obtain r1
    where r1: "r1 \<in> set (detectRuns img)" "c1 = processCandle img r1" by blast
  from processCandle_shape [OF detectRuns_ok [OF r0(1)]] r0(2)
  obtain g0 h0 l0 bh0 bl0
    where c0: "c0 = deriveCandle r0 g0 (real h0) (real l0) (real bh0) (real bl0)"
      and o0: "bh0 \<le> bl0" by auto
  from processCandle_shape [OF detectRuns_ok [OF r1(1)]] r1(2)
  obtain g1 h1 l1 bh1 bl1
    where c1: "c1 = deriveCandle r1 g1 (real h1) (real l1) (real bh1) (real bl1)"
      and o1: "bh1 \<le> bl1" by auto
  from assms(4-7) o0 o1 show ?thesis
    unfolding c0 c1 by (simp add: deriveCandle_def Let_def split: if_splits)
qed

end
